theory Spec2Isabelle
  imports Main "HOL-Library.Sublist" "HOL-Library.Char_ord" "HOL-Library.List_Lexorder"
begin

section \<open>Velocity: the storage and workflow engine over an S3-compatible bucket\<close>

text \<open>
  The development embeds \<^verbatim>\<open>internal/storage/s3.go\<close> and \<^verbatim>\<open>internal/storage/storage.go\<close>.
  Go strings and byte slices are byte sequences, so both are \<^typ>\<open>string\<close> here
  (an Isabelle \<^typ>\<open>char\<close> is one byte). Go's \<^verbatim>\<open>int\<close> is \<^typ>\<open>int\<close>: the only
  arithmetic on it is comparison and slicing, so no wrap-around can occur.
  The object store itself (the AWS SDK client and the bucket behind it) is outside the
  repository; it is modelled as an explicit state, \<open>world\<close>, with fault injection, so that
  every error branch of the Go code is reachable. Every storage function takes the world
  (and returns the new one when it writes); a \<^verbatim>\<open>(value, error)\<close> result is a sum with
  the error on the left. Three things the Go code does are not in the model: the
  \<^verbatim>\<open>context.Context\<close> argument (no call here is cancelled), the log lines, and the paging
  of listings (a listing comes back as one page).
\<close>

subsection \<open>The Go library functions the code calls\<close>

type_synonym bytes = string

text \<open>\<^verbatim>\<open>strings.HasPrefix\<close>, \<^verbatim>\<open>strings.HasSuffix\<close>, \<^verbatim>\<open>strings.Contains\<close>.\<close>

definition HasPrefix :: "string \<Rightarrow> string \<Rightarrow> bool" where
  "HasPrefix s p = prefix p s"

definition HasSuffix :: "string \<Rightarrow> string \<Rightarrow> bool" where
  "HasSuffix s x = suffix x s"

fun Contains :: "string \<Rightarrow> string \<Rightarrow> bool" where
  "Contains [] sub = (sub = [])"
| "Contains (c # cs) sub = (prefix sub (c # cs) \<or> Contains cs sub)"

text \<open>\<^verbatim>\<open>strings.Index\<close> and \<^verbatim>\<open>strings.LastIndex\<close>: the position of the first
  (last) occurrence, \<open>-1\<close> when there is none.\<close>

fun index_from :: "nat \<Rightarrow> string \<Rightarrow> string \<Rightarrow> int" where
  "index_from i [] sub = (if sub = [] then int i else -1)"
| "index_from i (c # cs) sub = (if prefix sub (c # cs) then int i else index_from (Suc i) cs sub)"

definition Index :: "string \<Rightarrow> string \<Rightarrow> int" where
  "Index s sub = index_from 0 s sub"

definition LastIndex :: "string \<Rightarrow> string \<Rightarrow> int" where
  "LastIndex s sub =
     (let j = Index (rev s) (rev sub)
      in if j < 0 then -1 else int (length s) - int (length sub) - j)"

text \<open>\<^verbatim>\<open>strings.Trim(s, "/")\<close>: leading and trailing bytes of the cutset removed.\<close>

definition Trim :: "string \<Rightarrow> string \<Rightarrow> string" where
  "Trim s cutset =
     rev (dropWhile (\<lambda>c. c \<in> set cutset) (rev (dropWhile (\<lambda>c. c \<in> set cutset) s)))"

text \<open>\<^verbatim>\<open>strings.Split\<close> on a one-byte separator, and \<^verbatim>\<open>strings.Join\<close>.\<close>

fun split_on :: "char \<Rightarrow> string \<Rightarrow> string list" where
  "split_on sep [] = [[]]"
| "split_on sep (c # cs) =
     (if c = sep then [] # split_on sep cs
      else (case split_on sep cs of
              [] \<Rightarrow> [[c]]
            | e # es \<Rightarrow> (c # e) # es))"

fun join_with :: "string \<Rightarrow> string list \<Rightarrow> string" where
  "join_with sep [] = []"
| "join_with sep [e] = e"
| "join_with sep (e # es) = e @ sep @ join_with sep es"

text \<open>
  \<^verbatim>\<open>path.Clean\<close>, element by element: empty and \<^verbatim>\<open>.\<close> elements vanish, a
  \<^verbatim>\<open>..\<close> removes the element before it when there is one to remove, is kept in front
  of a relative path and dropped at the root. The output elements are held newest first.
\<close>

fun clean_step :: "bool \<Rightarrow> string list \<Rightarrow> string \<Rightarrow> string list" where
  "clean_step rooted out e =
     (if e = [] \<or> e = ''.'' then out
      else if e = ''..'' then
        (case out of
           [] \<Rightarrow> (if rooted then [] else [''..''])
         | e' # rest \<Rightarrow>
             (if e' = ''..'' then (if rooted then out else ''..'' # out) else rest))
      else e # out)"

definition Clean :: "string \<Rightarrow> string" where
  "Clean p =
     (if p = [] then ''.''
      else
        let rooted = (hd p = CHR ''/'');
            body = join_with ''/'' (rev (foldl (clean_step rooted) [] (split_on CHR ''/'' p)))
        in if rooted then CHR ''/'' # body
           else if body = [] then ''.'' else body)"

text \<open>\<^verbatim>\<open>path.Join\<close>: empty elements are ignored, the rest is joined with slashes and
  cleaned; all elements empty gives the empty string.\<close>

definition Join :: "string list \<Rightarrow> string" where
  "Join elem =
     (let es = filter (\<lambda>e. e \<noteq> []) elem
      in if es = [] then [] else Clean (join_with ''/'' es))"

subsection \<open>storage.go: states and records\<close>

type_synonym State = string

definition StateDraft :: State where "StateDraft = ''draft''"
definition StatePending :: State where "StatePending = ''pending''"
definition StateLive :: State where "StateLive = ''live''"

definition ValidState :: "string \<Rightarrow> bool" where
  "ValidState s = (s = StateDraft \<or> s = StatePending \<or> s = StateLive)"

text \<open>The records keep the fields the storage functions fill from the object itself;
  \<^verbatim>\<open>LastModified\<close> and \<^verbatim>\<open>ETag\<close>, which are copied through unread, are left out.\<close>

record ContentItem =
  Key :: string
  Content :: bytes
  ContentType :: string
  VersionID :: string
  Size :: int
  Metadata :: "(string \<times> string) list"

record ContentStream =
  stream_Key :: string
  Body :: bytes
  stream_ContentType :: string
  stream_VersionID :: string
  stream_Size :: int
  stream_Metadata :: "(string \<times> string) list"

record ContentVersion =
  cv_VersionID :: string
  cv_Size :: int
  IsLatest :: bool

record Schema =
  Name :: string
  schema_Content :: bytes
  IsGlobal :: bool

record Comment =
  ID :: string
  Author :: string
  Message :: string
  Resolved :: bool
  ResolvedBy :: string

subsection \<open>The bucket\<close>

datatype s3_error = NoSuchKey | NotFound | AccessDenied | InternalError | RequestTimeout

datatype s3_op =
  OpGetObject | OpReadBody | OpHeadObject | OpPutObject | OpDeleteObject
  | OpListObjectsV2 | OpListObjectVersions

text \<open>One stored version of a key: a real object or a delete marker.\<close>

record s3_version =
  version_id :: "string option"
  delete_marker :: bool
  body :: bytes
  content_type :: "string option"
  metadata :: "(string \<times> string) list"

text \<open>
  The world a storage call runs in. \<open>objects\<close> holds, for every key, its versions newest
  first, the keys in ascending byte order (the order S3 lists in). \<open>versioning\<close> says
  whether the bucket keeps versions. \<open>faults\<close> injects a backend failure for an operation
  on a key. \<open>goroutines\<close> are the keys of the \<^verbatim>\<open>go s.pruneVersions(...)\<close> calls started
  and not yet run.
\<close>

record world =
  objects :: "(string \<times> s3_version list) list"
  versioning :: bool
  next_version :: nat
  faults :: "s3_op \<Rightarrow> string \<Rightarrow> s3_error option"
  goroutines :: "string list"

definition versions_of :: "world \<Rightarrow> string \<Rightarrow> s3_version list" where
  "versions_of w key = (case map_of (objects w) key of None \<Rightarrow> [] | Some vs \<Rightarrow> vs)"

fun put_entry :: "string \<Rightarrow> 'v \<Rightarrow> (string \<times> 'v) list \<Rightarrow> (string \<times> 'v) list" where
  "put_entry k v [] = [(k, v)]"
| "put_entry k v ((k', v') # xs) =
     (if k = k' then (k, v) # xs
      else if k < k' then (k, v) # (k', v') # xs
      else (k', v') # put_entry k v xs)"

definition set_versions :: "string \<Rightarrow> s3_version list \<Rightarrow> world \<Rightarrow> world" where
  "set_versions key vs w = w\<lparr>objects := put_entry key vs (objects w)\<rparr>"

text \<open>Version identifiers are opaque; the bucket draws them from a counter.\<close>

definition fresh_version_id :: "nat \<Rightarrow> string" where
  "fresh_version_id n = CHR ''v'' # replicate n CHR ''i''"

text \<open>The current object of a key: the newest version, unless that is a delete marker.\<close>

definition current :: "world \<Rightarrow> string \<Rightarrow> s3_version option" where
  "current w key =
     (case versions_of w key of
        [] \<Rightarrow> None
      | v # _ \<Rightarrow> (if delete_marker v then None else Some v))"

definition find_version :: "world \<Rightarrow> string \<Rightarrow> string \<Rightarrow> s3_version option" where
  "find_version w key vid =
     (case find (\<lambda>v. version_id v = Some vid) (versions_of w key) of
        None \<Rightarrow> None
      | Some v \<Rightarrow> (if delete_marker v then None else Some v))"

text \<open>\<^verbatim>\<open>GetObject\<close> and \<^verbatim>\<open>HeadObject\<close>; the version is pinned when one is given.\<close>

definition GetObject :: "world \<Rightarrow> string \<Rightarrow> string option \<Rightarrow> s3_error + s3_version" where
  "GetObject w key vid =
     (case faults w OpGetObject key of
        Some e \<Rightarrow> Inl e
      | None \<Rightarrow>
          (case (case vid of None \<Rightarrow> current w key | Some i \<Rightarrow> find_version w key i) of
             None \<Rightarrow> Inl NoSuchKey
           | Some v \<Rightarrow> Inr v))"

definition HeadObject :: "world \<Rightarrow> string \<Rightarrow> s3_error + s3_version" where
  "HeadObject w key =
     (case faults w OpHeadObject key of
        Some e \<Rightarrow> Inl e
      | None \<Rightarrow> (case current w key of None \<Rightarrow> Inl NotFound | Some v \<Rightarrow> Inr v))"

text \<open>\<^verbatim>\<open>PutObject\<close>: a versioning bucket stacks a new version and returns its identifier,
  any other bucket overwrites and returns none.\<close>

definition PutObject ::
  "world \<Rightarrow> string \<Rightarrow> bytes \<Rightarrow> string option \<Rightarrow> (string \<times> string) list
     \<Rightarrow> (s3_error + string option) \<times> world" where
  "PutObject w key content ct meta =
     (case faults w OpPutObject key of
        Some e \<Rightarrow> (Inl e, w)
      | None \<Rightarrow>
          if versioning w then
            let vid = fresh_version_id (next_version w);
                v = \<lparr>version_id = Some vid, delete_marker = False, body = content,
                     content_type = ct, metadata = meta\<rparr>
            in (Inr (Some vid),
                (set_versions key (v # versions_of w key) w)\<lparr>next_version := Suc (next_version w)\<rparr>)
          else
            let v = \<lparr>version_id = None, delete_marker = False, body = content,
                     content_type = ct, metadata = meta\<rparr>
            in (Inr None, set_versions key [v] w))"

text \<open>\<^verbatim>\<open>DeleteObject\<close>: with a version identifier that version is removed for good;
  without one a versioning bucket stacks a delete marker and any other bucket removes
  the object.\<close>

definition DeleteObject :: "world \<Rightarrow> string \<Rightarrow> string option \<Rightarrow> (s3_error + unit) \<times> world" where
  "DeleteObject w key vid =
     (case faults w OpDeleteObject key of
        Some e \<Rightarrow> (Inl e, w)
      | None \<Rightarrow>
          (case vid of
             Some i \<Rightarrow>
               (Inr (), set_versions key (filter (\<lambda>v. version_id v \<noteq> Some i) (versions_of w key)) w)
           | None \<Rightarrow>
               if versioning w then
                 let m = \<lparr>version_id = Some (fresh_version_id (next_version w)),
                          delete_marker = True, body = [], content_type = None, metadata = []\<rparr>
                 in (Inr (),
                     (set_versions key (m # versions_of w key) w)\<lparr>next_version := Suc (next_version w)\<rparr>)
               else (Inr (), set_versions key [] w)))"

text \<open>An entry of a listing; \<^verbatim>\<open>Key\<close> and \<^verbatim>\<open>Size\<close> are pointers in the SDK.\<close>

record Object =
  obj_Key :: "string option"
  obj_Size :: "int option"

definition listed :: "string \<times> s3_version list \<Rightarrow> Object option" where
  "listed kv =
     (case snd kv of
        [] \<Rightarrow> None
      | v # _ \<Rightarrow>
          (if delete_marker v then None
           else Some \<lparr>obj_Key = Some (fst kv), obj_Size = Some (int (length (body v)))\<rparr>))"

text \<open>\<^verbatim>\<open>ListObjectsV2\<close>: the current objects under a prefix, in key order, at most
  \<^verbatim>\<open>MaxKeys\<close> of them when a cap is given. The listing is returned as one page.\<close>

definition ListObjectsV2 :: "world \<Rightarrow> string \<Rightarrow> nat option \<Rightarrow> s3_error + Object list" where
  "ListObjectsV2 w pfx maxKeys =
     (case faults w OpListObjectsV2 pfx of
        Some e \<Rightarrow> Inl e
      | None \<Rightarrow>
          let found = List.map_filter listed (filter (\<lambda>kv. prefix pfx (fst kv)) (objects w))
          in Inr (case maxKeys of None \<Rightarrow> found | Some n \<Rightarrow> take n found))"

text \<open>An entry of a version listing (delete markers are listed apart and not modelled).\<close>

record ObjectVersion =
  ov_Key :: "string option"
  ov_VersionId :: "string option"
  ov_Size :: "int option"
  ov_IsLatest :: "bool option"

fun version_entries :: "string \<Rightarrow> bool \<Rightarrow> s3_version list \<Rightarrow> ObjectVersion list" where
  "version_entries key latest [] = []"
| "version_entries key latest (v # vs) =
     (if delete_marker v then version_entries key False vs
      else \<lparr>ov_Key = Some key, ov_VersionId = version_id v,
             ov_Size = Some (int (length (body v))), ov_IsLatest = Some latest\<rparr>
           # version_entries key False vs)"

definition ListObjectVersions :: "world \<Rightarrow> string \<Rightarrow> s3_error + ObjectVersion list" where
  "ListObjectVersions w pfx =
     (case faults w OpListObjectVersions pfx of
        Some e \<Rightarrow> Inl e
      | None \<Rightarrow>
          Inr (concat (map (\<lambda>kv. version_entries (fst kv) True (snd kv))
                           (filter (\<lambda>kv. prefix pfx (fst kv)) (objects w)))))"

definition aws_ToString :: "string option \<Rightarrow> string" where
  "aws_ToString p = (case p of None \<Rightarrow> [] | Some s \<Rightarrow> s)"

subsection \<open>s3.go: errors, configuration and the key namer\<close>

text \<open>One constructor for each \<^verbatim>\<open>fmt.Errorf\<close> of the file; \<^verbatim>\<open>%w\<close> wraps its cause.\<close>

datatype error =
    FailedToLoadConfig s3_error
  | FailedToPutObject s3_error
  | FailedToGetObject s3_error
  | FailedToReadBody s3_error
  | FailedToDeleteObject s3_error
  | FailedToListObjects s3_error
  | ContentNotFound string
  | SameState
  | FailedToCheckComments error
  | UnresolvedComments State
  | FailedToGetFromState State error
  | FailedToPutToState State error
  | SchemaNotFound string
  | CommentsOnlyOnDraftOrPending
  | FailedToPutComment s3_error
  | FailedToListComments s3_error
  | FailedToDeleteComment s3_error

record S3Config =
  cfg_Bucket :: string
  cfg_Root :: string
  cfg_MaxVersions :: int

record S3Storage =
  bucket :: string
  root :: string
  maxVersions :: int

text \<open>\<^verbatim>\<open>NewS3Storage\<close>; \<open>awsCfg\<close> is the outcome of \<^verbatim>\<open>config.LoadDefaultConfig\<close>.\<close>

definition NewS3Storage :: "s3_error + unit \<Rightarrow> S3Config \<Rightarrow> error + S3Storage" where
  "NewS3Storage awsCfg cfg =
     (case awsCfg of
        Inl err \<Rightarrow> Inl (FailedToLoadConfig err)
      | Inr _ \<Rightarrow>
          let root' = Trim (cfg_Root cfg) ''/'';
              maxVersions' = cfg_MaxVersions cfg;
              maxVersions' = (if maxVersions' = 0 then 10 else maxVersions')
          in Inr \<lparr>bucket = cfg_Bucket cfg, root = root', maxVersions = maxVersions'\<rparr>)"

definition contentKey :: "S3Storage \<Rightarrow> string \<Rightarrow> string \<Rightarrow> string \<Rightarrow> string \<Rightarrow> State \<Rightarrow> string" where
  "contentKey s tenant contentType ident ext state =
     (if state = StateLive \<or> state = [] then
        Join [root s, ''tenants'', tenant, ''content'', contentType, ident @ ''.'' @ ext]
      else
        Join [root s, ''tenants'', tenant, ''content'', contentType, ''_'' @ state, ident @ ''.'' @ ext])"

definition contentPrefix :: "S3Storage \<Rightarrow> string \<Rightarrow> string \<Rightarrow> State \<Rightarrow> string" where
  "contentPrefix s tenant contentType state =
     (if state = StateLive \<or> state = [] then
        Join [root s, ''tenants'', tenant, ''content'', contentType] @ ''/''
      else
        Join [root s, ''tenants'', tenant, ''content'', contentType, ''_'' @ state] @ ''/'')"

definition historyKey :: "S3Storage \<Rightarrow> string \<Rightarrow> string \<Rightarrow> string \<Rightarrow> string \<Rightarrow> string" where
  "historyKey s tenant contentType ident version =
     Join [root s, ''tenants'', tenant, ''content'', contentType, ''_history'', ident, version @ ''.json'']"

definition commentKey :: "S3Storage \<Rightarrow> string \<Rightarrow> string \<Rightarrow> string \<Rightarrow> State \<Rightarrow> string \<Rightarrow> string" where
  "commentKey s tenant contentType contentID state cid =
     Join [root s, ''tenants'', tenant, ''content'', contentType, ''_'' @ state, ''_comments'',
           contentID, cid @ ''.json'']"

definition commentPrefix :: "S3Storage \<Rightarrow> string \<Rightarrow> string \<Rightarrow> string \<Rightarrow> State \<Rightarrow> string" where
  "commentPrefix s tenant contentType contentID state =
     Join [root s, ''tenants'', tenant, ''content'', contentType, ''_'' @ state, ''_comments'',
           contentID] @ ''/''"

definition globalSchemaKey :: "S3Storage \<Rightarrow> string \<Rightarrow> string" where
  "globalSchemaKey s schemaName = Join [root s, ''schemas'', schemaName @ ''.json'']"

definition tenantSchemaKey :: "S3Storage \<Rightarrow> string \<Rightarrow> string \<Rightarrow> string" where
  "tenantSchemaKey s tenant schemaName =
     Join [root s, ''tenants'', tenant, ''schemas'', schemaName @ ''.json'']"

subsection \<open>s3.go: content operations\<close>

text \<open>\<^verbatim>\<open>getByKey\<close>: the object is fetched and its body read to the end; a missing
  content type reads as \<^verbatim>\<open>application/octet-stream\<close>.\<close>

definition getByKey :: "world \<Rightarrow> string \<Rightarrow> string \<Rightarrow> error + ContentItem" where
  "getByKey w key versionID =
     (case GetObject w key (if versionID \<noteq> [] then Some versionID else None) of
        Inl err \<Rightarrow> Inl (FailedToGetObject err)
      | Inr result \<Rightarrow>
          (case faults w OpReadBody key of
             Some err \<Rightarrow> Inl (FailedToReadBody err)
           | None \<Rightarrow>
               Inr \<lparr>Key = key, Content = body result,
                    ContentType = (case content_type result of
                                     None \<Rightarrow> ''application/octet-stream'' | Some ct \<Rightarrow> ct),
                    VersionID = aws_ToString (version_id result),
                    Size = int (length (body result)),
                    Metadata = []\<rparr>))"

definition getStreamByKey :: "world \<Rightarrow> string \<Rightarrow> string \<Rightarrow> error + ContentStream" where
  "getStreamByKey w key versionID =
     (case GetObject w key (if versionID \<noteq> [] then Some versionID else None) of
        Inl err \<Rightarrow> Inl (FailedToGetObject err)
      | Inr result \<Rightarrow>
          Inr \<lparr>stream_Key = key, Body = body result,
               stream_ContentType = (case content_type result of
                                       None \<Rightarrow> ''application/octet-stream'' | Some ct \<Rightarrow> ct),
               stream_VersionID = aws_ToString (version_id result),
               stream_Size = int (length (body result)),
               stream_Metadata = metadata result\<rparr>)"

definition Exists ::
  "S3Storage \<Rightarrow> world \<Rightarrow> string \<Rightarrow> string \<Rightarrow> string \<Rightarrow> string \<Rightarrow> State \<Rightarrow> error + bool" where
  "Exists s w tenant contentType ident ext state0 =
     (let state = (if state0 = [] then StateLive else state0);
          key = contentKey s tenant contentType ident ext state
      in case HeadObject w key of
           Inl err \<Rightarrow> Inr False
         | Inr _ \<Rightarrow> Inr True)"

text \<open>\<^verbatim>\<open>Put\<close>, the buffered write. It returns after the \<^verbatim>\<open>PutObject\<close>; it starts
  no goroutine.\<close>

definition Put ::
  "S3Storage \<Rightarrow> world \<Rightarrow> string \<Rightarrow> string \<Rightarrow> string \<Rightarrow> string \<Rightarrow> bytes \<Rightarrow> string \<Rightarrow> State
     \<Rightarrow> (error + ContentItem) \<times> world" where
  "Put s w tenant contentType ident ext content mimeType state0 =
     (let state = (if state0 = [] then StateLive else state0);
          key = contentKey s tenant contentType ident ext state
      in case PutObject w key content (Some mimeType) [] of
           (Inl err, w') \<Rightarrow> (Inl (FailedToPutObject err), w')
         | (Inr result, w') \<Rightarrow>
             (Inr \<lparr>Key = key, Content = content, ContentType = mimeType,
                   VersionID = aws_ToString result, Size = 0, Metadata = []\<rparr>, w'))"

text \<open>\<^verbatim>\<open>PutStream\<close>, the streaming write; \<open>body\<close> is what the reader yields. After a
  live write with a positive \<open>maxVersions\<close> it starts \<^verbatim>\<open>go s.pruneVersions(ctx, key)\<close>.\<close>

definition PutStream ::
  "S3Storage \<Rightarrow> world \<Rightarrow> string \<Rightarrow> string \<Rightarrow> string \<Rightarrow> string \<Rightarrow> bytes \<Rightarrow> int \<Rightarrow> string \<Rightarrow> State
     \<Rightarrow> (string \<times> string) list \<Rightarrow> (error + ContentItem) \<times> world" where
  "PutStream s w tenant contentType ident ext content contentLength mimeType state0 meta =
     (let state = (if state0 = [] then StateLive else state0);
          key = contentKey s tenant contentType ident ext state
      in case PutObject w key content (Some mimeType) meta of
           (Inl err, w') \<Rightarrow> (Inl (FailedToPutObject err), w')
         | (Inr result, w') \<Rightarrow>
             (Inr \<lparr>Key = key, Content = [], ContentType = mimeType,
                   VersionID = aws_ToString result, Size = contentLength, Metadata = meta\<rparr>,
              if state = StateLive \<and> maxVersions s > 0
              then w'\<lparr>goroutines := goroutines w' @ [key]\<rparr> else w'))"

text \<open>
  \<^verbatim>\<open>pruneVersions\<close>. The versions of exactly this key are kept from the listing; when
  there are more than \<open>maxVersions\<close>, those after the first \<open>maxVersions\<close> are deleted one
  by one, a failed delete being logged and skipped. The slice expression
  \<^verbatim>\<open>objectVersions[s.maxVersions:]\<close> panics on a negative bound: the result is \<open>None\<close>.
\<close>

fun delete_versions :: "world \<Rightarrow> string \<Rightarrow> ObjectVersion list \<Rightarrow> world" where
  "delete_versions w key [] = w"
| "delete_versions w key (v # vs) =
     delete_versions (snd (DeleteObject w key (ov_VersionId v))) key vs"

definition pruneVersions :: "S3Storage \<Rightarrow> string \<Rightarrow> world \<Rightarrow> world option" where
  "pruneVersions s key w =
     (case ListObjectVersions w key of
        Inl err \<Rightarrow> Some w
      | Inr versions \<Rightarrow>
          let objectVersions = filter (\<lambda>v. aws_ToString (ov_Key v) = key) versions
          in if int (length objectVersions) > maxVersions s then
               (if maxVersions s < 0 then None
                else Some (delete_versions w key (drop (nat (maxVersions s)) objectVersions)))
             else Some w)"

text \<open>Letting every started goroutine run, in the order they were started.\<close>

fun run_all :: "S3Storage \<Rightarrow> string list \<Rightarrow> world \<Rightarrow> world option" where
  "run_all s [] w = Some w"
| "run_all s (key # keys) w =
     (case pruneVersions s key w of None \<Rightarrow> None | Some w' \<Rightarrow> run_all s keys w')"

definition run_goroutines :: "S3Storage \<Rightarrow> world \<Rightarrow> world option" where
  "run_goroutines s w = run_all s (goroutines w) (w\<lparr>goroutines := []\<rparr>)"

definition Get ::
  "S3Storage \<Rightarrow> world \<Rightarrow> string \<Rightarrow> string \<Rightarrow> string \<Rightarrow> string \<Rightarrow> State \<Rightarrow> error + ContentItem" where
  "Get s w tenant contentType ident ext state0 =
     (let state = (if state0 = [] then StateLive else state0);
          key = contentKey s tenant contentType ident ext state
      in getByKey w key [])"

text \<open>
  \<^verbatim>\<open>FindContentStream\<close>. The loop over the listing keeps the first key as \<open>bestKey\<close> and
  stops at the first key that does not end in \<^verbatim>\<open>.json\<close>.
\<close>

fun best_key_loop :: "string \<Rightarrow> Object list \<Rightarrow> string" where
  "best_key_loop bestKey [] = bestKey"
| "best_key_loop bestKey (obj # objs) =
     (let key = aws_ToString (obj_Key obj);
          bestKey' = (if bestKey = [] then key else bestKey)
      in if \<not> HasSuffix key ''.json'' then key else best_key_loop bestKey' objs)"

definition FindContentStream ::
  "S3Storage \<Rightarrow> world \<Rightarrow> string \<Rightarrow> string \<Rightarrow> string \<Rightarrow> string \<Rightarrow> State \<Rightarrow> error + ContentStream" where
  "FindContentStream s w tenant contentType ident extHint state0 =
     (let state = (if state0 = [] then StateLive else state0);
          idx = LastIndex ident ''.''
      in if idx \<noteq> -1 \<and> idx < int (length ident) - 1 then
           getStreamByKey w
             (contentKey s tenant contentType (take (nat idx) ident) (drop (nat (idx + 1)) ident) state) []
         else
           case (if extHint \<noteq> []
                 then (case getStreamByKey w (contentKey s tenant contentType ident extHint state) [] of
                         Inr stream \<Rightarrow> Some stream
                       | Inl err \<Rightarrow> None)
                 else None) of
             Some stream \<Rightarrow> Inr stream
           | None \<Rightarrow>
               (case ListObjectsV2 w (contentPrefix s tenant contentType state @ ident @ ''.'') (Some 10) of
                  Inl err \<Rightarrow> Inl (FailedToListObjects err)
                | Inr contents \<Rightarrow>
                    if length contents > 0 then getStreamByKey w (best_key_loop [] contents) []
                    else Inl (ContentNotFound ident)))"

definition Delete ::
  "S3Storage \<Rightarrow> world \<Rightarrow> string \<Rightarrow> string \<Rightarrow> string \<Rightarrow> string \<Rightarrow> State \<Rightarrow> (error + unit) \<times> world" where
  "Delete s w tenant contentType ident ext state0 =
     (let state = (if state0 = [] then StateLive else state0);
          key = contentKey s tenant contentType ident ext state
      in case DeleteObject w key None of
           (Inl err, w') \<Rightarrow> (Inl (FailedToDeleteObject err), w')
         | (Inr _, w') \<Rightarrow> (Inr (), w'))"

text \<open>\<^verbatim>\<open>List\<close>. In a live listing the keys that contain \<^verbatim>\<open>/_draft/\<close> or
  \<^verbatim>\<open>/_pending/\<close> are skipped; every other listed key becomes an item.\<close>

fun list_items :: "State \<Rightarrow> Object list \<Rightarrow> ContentItem list" where
  "list_items state [] = []"
| "list_items state (obj # objs) =
     (let key = (case obj_Key obj of None \<Rightarrow> [] | Some k \<Rightarrow> k)
      in if state = StateLive \<and> (Contains key ''/_draft/'' \<or> Contains key ''/_pending/'')
         then list_items state objs
         else \<lparr>Key = key, Content = [], ContentType = [], VersionID = [],
               Size = (case obj_Size obj of None \<Rightarrow> 0 | Some n \<Rightarrow> n), Metadata = []\<rparr>
              # list_items state objs)"

definition List ::
  "S3Storage \<Rightarrow> world \<Rightarrow> string \<Rightarrow> string \<Rightarrow> State \<Rightarrow> error + ContentItem list" where
  "List s w tenant contentType state0 =
     (let state = (if state0 = [] then StateLive else state0);
          pfx = contentPrefix s tenant contentType state
      in case ListObjectsV2 w pfx None of
           Inl err \<Rightarrow> Inl (FailedToListObjects err)
         | Inr contents \<Rightarrow> Inr (list_items state contents))"

definition ListVersions ::
  "S3Storage \<Rightarrow> world \<Rightarrow> string \<Rightarrow> string \<Rightarrow> string \<Rightarrow> string \<Rightarrow> error + ContentVersion list" where
  "ListVersions s w tenant contentType ident ext =
     (let key = contentKey s tenant contentType ident ext StateLive
      in case ListObjectVersions w key of
           Inl err \<Rightarrow> Inl (FailedToListObjects err)
         | Inr versions \<Rightarrow>
             Inr (map (\<lambda>v. \<lparr>cv_VersionID = aws_ToString (ov_VersionId v),
                            cv_Size = (case ov_Size v of None \<Rightarrow> 0 | Some n \<Rightarrow> n),
                            IsLatest = (ov_IsLatest v = Some True)\<rparr>)
                      (filter (\<lambda>v. ov_Key v = Some key) versions)))"

subsection \<open>s3.go: schemas\<close>

definition GetSchema :: "S3Storage \<Rightarrow> world \<Rightarrow> string \<Rightarrow> string \<Rightarrow> error + Schema" where
  "GetSchema s w tenant schemaName =
     (case getByKey w (tenantSchemaKey s tenant schemaName) [] of
        Inr item \<Rightarrow> Inr \<lparr>Name = schemaName, schema_Content = Content item, IsGlobal = False\<rparr>
      | Inl _ \<Rightarrow>
          (case getByKey w (globalSchemaKey s schemaName) [] of
             Inl _ \<Rightarrow> Inl (SchemaNotFound schemaName)
           | Inr item \<Rightarrow> Inr \<lparr>Name = schemaName, schema_Content = Content item, IsGlobal = True\<rparr>))"

definition PutGlobalSchema :: "S3Storage \<Rightarrow> world \<Rightarrow> string \<Rightarrow> bytes \<Rightarrow> (error + unit) \<times> world" where
  "PutGlobalSchema s w schemaName content =
     (case PutObject w (globalSchemaKey s schemaName) content (Some ''application/json'') [] of
        (Inl err, w') \<Rightarrow> (Inl (FailedToPutObject err), w')
      | (Inr _, w') \<Rightarrow> (Inr (), w'))"

definition PutTenantSchema ::
  "S3Storage \<Rightarrow> world \<Rightarrow> string \<Rightarrow> string \<Rightarrow> bytes \<Rightarrow> (error + unit) \<times> world" where
  "PutTenantSchema s w tenant schemaName content =
     (case PutObject w (tenantSchemaKey s tenant schemaName) content (Some ''application/json'') [] of
        (Inl err, w') \<Rightarrow> (Inl (FailedToPutObject err), w')
      | (Inr _, w') \<Rightarrow> (Inr (), w'))"

subsection \<open>s3.go: comments and the transition\<close>

text \<open>
  Comments are stored as JSON. \<^verbatim>\<open>json.Unmarshal\<close> is a parameter, \<open>unmarshal\<close>, of
  every function that reads one: \<open>None\<close> is a body that does not parse.
  \<^verbatim>\<open>ListComments\<close> skips an entry whose key is nil, whose object cannot be read or
  whose body does not parse.
\<close>

fun collect_comments :: "(bytes \<Rightarrow> Comment option) \<Rightarrow> world \<Rightarrow> Object list \<Rightarrow> Comment list" where
  "collect_comments unmarshal w [] = []"
| "collect_comments unmarshal w (obj # objs) =
     (case obj_Key obj of
        None \<Rightarrow> collect_comments unmarshal w objs
      | Some key \<Rightarrow>
          (case getByKey w key [] of
             Inl err \<Rightarrow> collect_comments unmarshal w objs
           | Inr item \<Rightarrow>
               (case unmarshal (Content item) of
                  None \<Rightarrow> collect_comments unmarshal w objs
                | Some comment \<Rightarrow> comment # collect_comments unmarshal w objs)))"

definition ListComments ::
  "S3Storage \<Rightarrow> (bytes \<Rightarrow> Comment option) \<Rightarrow> world \<Rightarrow> string \<Rightarrow> string \<Rightarrow> string \<Rightarrow> State
     \<Rightarrow> error + Comment list" where
  "ListComments s unmarshal w tenant contentType contentID state =
     (case ListObjectsV2 w (commentPrefix s tenant contentType contentID state) None of
        Inl err \<Rightarrow> Inl (FailedToListComments err)
      | Inr contents \<Rightarrow> Inr (collect_comments unmarshal w contents))"

definition DeleteComment ::
  "S3Storage \<Rightarrow> world \<Rightarrow> string \<Rightarrow> string \<Rightarrow> string \<Rightarrow> State \<Rightarrow> string \<Rightarrow> (error + unit) \<times> world" where
  "DeleteComment s w tenant contentType contentID state cid =
     (case DeleteObject w (commentKey s tenant contentType contentID state cid) None of
        (Inl err, w') \<Rightarrow> (Inl (FailedToDeleteComment err), w')
      | (Inr _, w') \<Rightarrow> (Inr (), w'))"

fun delete_comments ::
  "S3Storage \<Rightarrow> world \<Rightarrow> string \<Rightarrow> string \<Rightarrow> string \<Rightarrow> State \<Rightarrow> Comment list \<Rightarrow> world" where
  "delete_comments s w tenant contentType contentID state [] = w"
| "delete_comments s w tenant contentType contentID state (comment # comments) =
     delete_comments s (snd (DeleteComment s w tenant contentType contentID state (ID comment)))
       tenant contentType contentID state comments"

definition DeleteAllComments ::
  "S3Storage \<Rightarrow> (bytes \<Rightarrow> Comment option) \<Rightarrow> world \<Rightarrow> string \<Rightarrow> string \<Rightarrow> string \<Rightarrow> State
     \<Rightarrow> (error + unit) \<times> world" where
  "DeleteAllComments s unmarshal w tenant contentType contentID state =
     (case ListComments s unmarshal w tenant contentType contentID state of
        Inl err \<Rightarrow> (Inl err, w)
      | Inr comments \<Rightarrow> (Inr (), delete_comments s w tenant contentType contentID state comments))"

fun any_unresolved :: "Comment list \<Rightarrow> bool" where
  "any_unresolved [] = False"
| "any_unresolved (comment # comments) =
     (if \<not> Resolved comment then True else any_unresolved comments)"

definition HasUnresolvedComments ::
  "S3Storage \<Rightarrow> (bytes \<Rightarrow> Comment option) \<Rightarrow> world \<Rightarrow> string \<Rightarrow> string \<Rightarrow> string \<Rightarrow> State
     \<Rightarrow> error + bool" where
  "HasUnresolvedComments s unmarshal w tenant contentType contentID state =
     (case ListComments s unmarshal w tenant contentType contentID state of
        Inl err \<Rightarrow> Inl err
      | Inr comments \<Rightarrow> Inr (any_unresolved comments))"

text \<open>\<^verbatim>\<open>Transition\<close>. A failed delete of the source and a failed comment cleanup are
  logged and do not fail the call.\<close>

definition Transition ::
  "S3Storage \<Rightarrow> (bytes \<Rightarrow> Comment option) \<Rightarrow> world \<Rightarrow> string \<Rightarrow> string \<Rightarrow> string \<Rightarrow> string
     \<Rightarrow> State \<Rightarrow> State \<Rightarrow> (error + ContentItem) \<times> world" where
  "Transition s unmarshal w tenant contentType ident ext fromState toState =
     (if fromState = toState then (Inl SameState, w)
      else
        case (if fromState \<noteq> StateLive
              then HasUnresolvedComments s unmarshal w tenant contentType ident fromState
              else Inr False) of
          Inl err \<Rightarrow> (Inl (FailedToCheckComments err), w)
        | Inr True \<Rightarrow> (Inl (UnresolvedComments fromState), w)
        | Inr False \<Rightarrow>
            (case Get s w tenant contentType ident ext fromState of
               Inl err \<Rightarrow> (Inl (FailedToGetFromState fromState err), w)
             | Inr sourceItem \<Rightarrow>
                 (case Put s w tenant contentType ident ext (Content sourceItem)
                         (ContentType sourceItem) toState of
                    (Inl err, w1) \<Rightarrow> (Inl (FailedToPutToState toState err), w1)
                  | (Inr targetItem, w1) \<Rightarrow>
                      let w2 = snd (Delete s w1 tenant contentType ident ext fromState);
                          w3 = (if fromState \<noteq> StateLive
                                then snd (DeleteAllComments s unmarshal w2 tenant contentType ident fromState)
                                else w2)
                      in (Inr targetItem, w3))))"

subsection \<open>Sequences of live writes\<close>

text \<open>
  A live write goes through \<^verbatim>\<open>PutStream\<close> (the content handlers) or through the
  buffered \<^verbatim>\<open>Put\<close> (the upload handler and \<^verbatim>\<open>Transition\<close>). In a sequence of
  them, the goroutines a write has started run to completion before the next write.
\<close>

record live_write =
  lw_streamed :: bool
  lw_tenant :: string
  lw_type :: string
  lw_id :: string
  lw_ext :: string
  lw_content :: bytes
  lw_mime :: string
  lw_metadata :: "(string \<times> string) list"

definition live_write_step :: "S3Storage \<Rightarrow> live_write \<Rightarrow> world \<Rightarrow> world" where
  "live_write_step s x w =
     (if lw_streamed x
      then snd (PutStream s w (lw_tenant x) (lw_type x) (lw_id x) (lw_ext x) (lw_content x)
                  (int (length (lw_content x))) (lw_mime x) StateLive (lw_metadata x))
      else snd (Put s w (lw_tenant x) (lw_type x) (lw_id x) (lw_ext x) (lw_content x)
                  (lw_mime x) StateLive))"

fun live_writes :: "S3Storage \<Rightarrow> live_write list \<Rightarrow> world \<Rightarrow> world option" where
  "live_writes s [] w = Some w"
| "live_writes s (x # xs) w =
     (case run_goroutines s (live_write_step s x w) of
        None \<Rightarrow> None
      | Some w' \<Rightarrow> live_writes s xs w')"

subsection \<open>Concrete stores used to run the code\<close>

definition demo :: S3Storage where
  "demo = \<lparr>bucket = ''velocity'', root = ''development'', maxVersions = 10\<rparr>"

definition stored :: "string \<Rightarrow> bytes \<Rightarrow> s3_version" where
  "stored vid content =
     \<lparr>version_id = Some vid, delete_marker = False, body = content,
      content_type = Some ''application/json'', metadata = []\<rparr>"

definition empty_world :: world where
  "empty_world = \<lparr>objects = [], versioning = True, next_version = 0,
                   faults = (\<lambda>op key. None), goroutines = []\<rparr>"

definition denied_world :: world where
  "denied_world =
     \<lparr>objects = [(''development/tenants/demo/content/articles/hello.json'', [stored ''v'' ''{}''])],
      versioning = True, next_version = 1,
      faults = (\<lambda>op key. if op = OpHeadObject then Some AccessDenied else None),
      goroutines = []\<rparr>"

definition schema_world :: world where
  "schema_world =
     \<lparr>objects = [(''development/schemas/article.json'', [stored ''v'' ''{global}'']),
                 (''development/tenants/demo/schemas/article.json'', [stored ''vi'' ''{tenant}''])],
      versioning = True, next_version = 2,
      faults = (\<lambda>op key. None),
      goroutines = []\<rparr>"

definition global_only_world :: world where
  "global_only_world =
     schema_world\<lparr>objects := [(''development/schemas/article.json'', [stored ''v'' ''{global}''])]\<rparr>"

definition tenant_fault_world :: world where
  "tenant_fault_world =
     schema_world\<lparr>faults := (\<lambda>op key.
        if op = OpGetObject \<and> key = ''development/tenants/demo/schemas/article.json''
        then Some InternalError else None)\<rparr>"

definition all_fault_world :: world where
  "all_fault_world = schema_world\<lparr>faults := (\<lambda>op key. if op = OpGetObject then Some AccessDenied else None)\<rparr>"

definition logo_world :: world where
  "logo_world =
     \<lparr>objects = [(''development/tenants/demo/content/images/logo.json'', [stored ''v'' ''{}'']),
                 (''development/tenants/demo/content/images/logo.png'',
                    [\<lparr>version_id = Some ''vi'', delete_marker = False, body = ''PNG'',
                      content_type = Some ''image/png'', metadata = []\<rparr>]),
                 (''development/tenants/demo/content/images/logotype.svg'', [stored ''vii'' ''<svg/>''])],
      versioning = True, next_version = 3,
      faults = (\<lambda>op key. None),
      goroutines = []\<rparr>"

definition json_only_world :: world where
  "json_only_world =
     logo_world\<lparr>objects := [(''development/tenants/demo/content/images/logo.json'', [stored ''v'' ''{}'']),
                             (''development/tenants/demo/content/images/logo.meta.json'', [stored ''vi'' ''[]''])]\<rparr>"

text \<open>A stand-in for \<^verbatim>\<open>json.Unmarshal\<close> on comments, used to run the code: the first
  byte tells resolved (\<^verbatim>\<open>R\<close>) from unresolved (\<^verbatim>\<open>U\<close>), the rest is the comment's ID; anything else
  does not parse.\<close>

definition decode_comment :: "bytes \<Rightarrow> Comment option" where
  "decode_comment data =
     (case data of
        [] \<Rightarrow> None
      | c # rest \<Rightarrow>
          if c = CHR ''R'' then Some \<lparr>ID = rest, Author = ''reviewer'', Message = ''fix'',
                                      Resolved = True, ResolvedBy = ''editor''\<rparr>
          else if c = CHR ''U'' then Some \<lparr>ID = rest, Author = ''reviewer'', Message = ''fix'',
                                           Resolved = False, ResolvedBy = []\<rparr>
          else None)"

definition draft_world :: "bytes \<Rightarrow> world" where
  "draft_world comment =
     \<lparr>objects = [(''development/tenants/demo/content/articles/_draft/_comments/hello/c1.json'',
                    [stored ''v'' comment]),
                 (''development/tenants/demo/content/articles/_draft/hello.json'',
                    [stored ''vi'' ''{}''])],
      versioning = True, next_version = 2,
      faults = (\<lambda>op key. None),
      goroutines = []\<rparr>"

definition live_world :: world where
  "live_world =
     \<lparr>objects = [(''development/tenants/demo/content/articles/hello.json'', [stored ''v'' ''{}''])],
      versioning = True, next_version = 1,
      faults = (\<lambda>op key. None),
      goroutines = []\<rparr>"

definition tenant_denied_world :: world where
  "tenant_denied_world =
     schema_world\<lparr>faults := (\<lambda>op key.
        if op = OpGetObject \<and> key = ''development/tenants/demo/schemas/article.json''
        then Some AccessDenied else None)\<rparr>"

definition commented_live_world :: world where
  "commented_live_world =
     \<lparr>objects = [(''development/tenants/demo/content/articles/_live/_comments/hello/c1.json'',
                    [stored ''vi'' ''Uc1'']),
                 (''development/tenants/demo/content/articles/hello.json'', [stored ''v'' ''{}''])],
      versioning = True, next_version = 2,
      faults = (\<lambda>op key. None),
      goroutines = []\<rparr>"


definition published_world :: world where
  "published_world =
     \<lparr>objects = [(''development/tenants/demo/content/articles/_draft/_comments/hello/c1.json'',
                    [stored ''v'' ''Uc1'']),
                 (''development/tenants/demo/content/articles/_draft/hello.json'',
                    [stored ''vi'' ''{draft}'']),
                 (''development/tenants/demo/content/articles/_history/hello/vii.json'',
                    [stored ''viii'' ''{history}'']),
                 (''development/tenants/demo/content/articles/_pending/other.json'',
                    [stored ''viiii'' ''{pending}'']),
                 (''development/tenants/demo/content/articles/hello.json'',
                    [stored ''vii'' ''{live}''])],
      versioning = True, next_version = 5,
      faults = (\<lambda>op key. None),
      goroutines = []\<rparr>"

definition keep_one :: S3Storage where
  "keep_one = \<lparr>bucket = ''velocity'', root = ''development'', maxVersions = 1\<rparr>"

definition version_ids :: "world option \<Rightarrow> string \<Rightarrow> string option list option" where
  "version_ids ow key = map_option (\<lambda>w. map version_id (versions_of w key)) ow"

definition zero_config :: S3Config where
  "zero_config = \<lparr>cfg_Bucket = ''velocity'', cfg_Root = ''/development/'', cfg_MaxVersions = 0\<rparr>"

definition all_config :: S3Config where
  "all_config = \<lparr>cfg_Bucket = ''velocity'', cfg_Root = ''/development/'', cfg_MaxVersions = -1\<rparr>"

definition ten_versions_world :: world where
  "ten_versions_world =
     \<lparr>objects = [(''development/tenants/demo/content/articles/hello.json'',
                   map (\<lambda>n. stored (fresh_version_id n) ''{}'') (rev [0..<10]))],
      versioning = True, next_version = 10,
      faults = (\<lambda>op key. None),
      goroutines = []\<rparr>"

definition unlimited :: S3Storage where
  "unlimited = \<lparr>bucket = ''velocity'', root = ''development'', maxVersions = -1\<rparr>"

definition two_writes :: "live_write list" where
  "two_writes =
     [\<lparr>lw_streamed = True, lw_tenant = ''demo'', lw_type = ''articles'', lw_id = ''hello'',
       lw_ext = ''json'', lw_content = ''{}'', lw_mime = ''application/json'', lw_metadata = []\<rparr>,
      \<lparr>lw_streamed = False, lw_tenant = ''demo'', lw_type = ''articles'', lw_id = ''hello'',
       lw_ext = ''json'', lw_content = ''{2}'', lw_mime = ''application/json'', lw_metadata = []\<rparr>]"

subsection \<open>What is stored and what can be read\<close>

text \<open>The object a read of a key yields: the current object, unless the backend fails the
  \<^verbatim>\<open>GetObject\<close> or the reading of its body.\<close>

definition readable :: "world \<Rightarrow> string \<Rightarrow> s3_version option" where
  "readable w key =
     (if faults w OpGetObject key = None \<and> faults w OpReadBody key = None
      then current w key else None)"


text \<open>An identifier that is one plain path element: not empty, no slash, neither \<^verbatim>\<open>.\<close>
  nor \<^verbatim>\<open>..\<close>.\<close>

definition plain :: "string \<Rightarrow> bool" where
  "plain e = (e \<noteq> [] \<and> CHR ''/'' \<notin> set e \<and> e \<noteq> ''.'' \<and> e \<noteq> ''..'')"

subsection \<open>The specification's choice among listed candidates\<close>

text \<open>The resolver's contract in the specification's words: the first candidate whose key
  does not end in \<^verbatim>\<open>.json\<close>, and the first candidate overall when every key does.\<close>

definition prefer_non_json :: "string list \<Rightarrow> string" where
  "prefer_non_json keys =
     (case find (\<lambda>k. \<not> suffix ''.json'' k) keys of
        Some k \<Rightarrow> k
      | None \<Rightarrow> (case keys of [] \<Rightarrow> [] | k # _ \<Rightarrow> k))"

section \<open>Properties\<close>

subsection \<open>The bucket: what a write leaves behind\<close>

lemma map_of_put_entry: "map_of (put_entry k v xs) = (map_of xs)(k \<mapsto> v)"
  by (induction xs) (auto simp: fun_eq_iff)

lemma versions_of_set_versions:
  "versions_of (set_versions k vs w) k' = (if k' = k then vs else versions_of w k')"
  by (simp add: versions_of_def set_versions_def map_of_put_entry)

lemma set_versions_fields:
  "faults (set_versions k vs w) = faults w"
  "versioning (set_versions k vs w) = versioning w"
  "goroutines (set_versions k vs w) = goroutines w"
  "next_version (set_versions k vs w) = next_version w"
  by (simp_all add: set_versions_def)

lemma versions_of_next_version: "versions_of (w\<lparr>next_version := n\<rparr>) k = versions_of w k"
  by (simp add: versions_of_def)

lemma versions_of_goroutines: "versions_of (w\<lparr>goroutines := g\<rparr>) k = versions_of w k"
  by (simp add: versions_of_def)

lemma PutObject_fields:
  "faults (snd (PutObject w key content ct meta)) = faults w"
  "versioning (snd (PutObject w key content ct meta)) = versioning w"
  "goroutines (snd (PutObject w key content ct meta)) = goroutines w"
  by (simp_all add: PutObject_def Let_def set_versions_fields split: option.splits)

lemma PutObject_current:
  assumes "PutObject w key content ct meta = (Inr r, w')"
  shows "current w' key =
           Some \<lparr>version_id = r, delete_marker = False, body = content,
                 content_type = ct, metadata = meta\<rparr>"
  using assms
  by (auto simp: PutObject_def Let_def current_def versions_of_set_versions
        versions_of_next_version split: option.splits if_splits)

lemma PutObject_versions_grow:
  assumes "versioning w"
  shows "suffix (versions_of w k) (versions_of (snd (PutObject w key content ct meta)) k)"
  using assms
  by (auto simp: PutObject_def Let_def versions_of_set_versions versions_of_next_version
        suffix_ConsI split: option.splits)

subsection \<open>The key namer on plain identifiers\<close>

text \<open>For plain identifiers \<^verbatim>\<open>path.Join\<close> only joins, so the keys can be spelled out.\<close>

lemma split_on_no_sep: "sep \<notin> set e \<Longrightarrow> split_on sep e = [e]"
  by (induction e) auto

lemma split_on_append: "sep \<notin> set e \<Longrightarrow> split_on sep (e @ sep # rest) = e # split_on sep rest"
  by (induction e) auto

lemma split_on_join_with:
  "es \<noteq> [] \<Longrightarrow> \<forall>e\<in>set es. CHR ''/'' \<notin> set e \<Longrightarrow> split_on CHR ''/'' (join_with ''/'' es) = es"
proof (induction "''/''" es rule: join_with.induct)
  case 1
  then show ?case by simp
next
  case (2 e)
  then show ?case by (simp add: split_on_no_sep)
next
  case (3 e v va)
  then show ?case using split_on_append[of "CHR ''/''" e "join_with ''/'' (v # va)"] by simp
qed

lemma foldl_clean_step_plain:
  "\<forall>e\<in>set es. plain e \<Longrightarrow> foldl (clean_step rooted) acc es = rev es @ acc"
  by (induction es arbitrary: acc) (auto simp: plain_def)

lemma join_with_hd:
  "es \<noteq> [] \<Longrightarrow> hd es \<noteq> [] \<Longrightarrow> join_with sep es \<noteq> [] \<and> hd (join_with sep es) = hd (hd es)"
  by (induction sep es rule: join_with.induct) auto

lemma Clean_plain:
  assumes "es \<noteq> []" "\<forall>e\<in>set es. plain e"
  shows "Clean (join_with ''/'' es) = join_with ''/'' es"
proof -
  from assms have h: "hd es \<noteq> []" "CHR ''/'' \<notin> set (hd es)"
    by (cases es; auto simp: plain_def)+
  with assms(1) have ne: "join_with ''/'' es \<noteq> []" and hd: "hd (join_with ''/'' es) = hd (hd es)"
    using join_with_hd by blast+
  from h have nr: "hd (hd es) \<noteq> CHR ''/''" by (cases "hd es") auto
  have sp: "split_on CHR ''/'' (join_with ''/'' es) = es"
    using assms by (intro split_on_join_with) (auto simp: plain_def)
  show ?thesis
    using ne nr by (simp add: Clean_def Let_def hd sp foldl_clean_step_plain[OF assms(2)])
qed

lemma Join_plain:
  assumes "es \<noteq> []" "\<forall>e\<in>set es. plain e"
  shows "Join es = join_with ''/'' es"
proof -
  from assms(2) have "filter (\<lambda>e. e \<noteq> []) es = es" by (auto simp: plain_def filter_id_conv)
  with assms show ?thesis by (simp add: Join_def Let_def Clean_plain)
qed



lemma plain_json: "CHR ''/'' \<notin> set name \<Longrightarrow> plain (name @ ''.json'')"
  by (auto simp: plain_def append_eq_Cons_conv)

lemma schema_keys_plain:
  assumes "root s = [] \<or> plain (root s)" "plain tenant" "CHR ''/'' \<notin> set schemaName"
  shows "tenantSchemaKey s tenant schemaName =
           (if root s = [] then [] else root s @ ''/'') @ ''tenants/'' @ tenant @ ''/schemas/''
             @ schemaName @ ''.json''"
    and "globalSchemaKey s schemaName =
           (if root s = [] then [] else root s @ ''/'') @ ''schemas/'' @ schemaName @ ''.json''"
proof -
  let ?t = "[''tenants'', tenant, ''schemas'', schemaName @ ''.json'']"
  let ?g = "[''schemas'', schemaName @ ''.json'']"
  have pt: "\<forall>e\<in>set ?t. plain e" and pg: "\<forall>e\<in>set ?g. plain e"
    using assms(2) plain_json[OF assms(3)] by (auto simp: plain_def)
  show "tenantSchemaKey s tenant schemaName =
           (if root s = [] then [] else root s @ ''/'') @ ''tenants/'' @ tenant @ ''/schemas/''
             @ schemaName @ ''.json''"
  proof (cases "root s = []")
    case True
    then have "Join (root s # ?t) = Join ?t" by (simp add: Join_def)
    also have "\<dots> = join_with ''/'' ?t" using pt by (intro Join_plain) auto
    finally show ?thesis using True by (simp add: tenantSchemaKey_def)
  next
    case False
    with assms(1) pt have "\<forall>e\<in>set (root s # ?t). plain e" by auto
    then have "Join (root s # ?t) = join_with ''/'' (root s # ?t)" by (intro Join_plain) auto
    then show ?thesis using False by (simp add: tenantSchemaKey_def)
  qed
  show "globalSchemaKey s schemaName =
           (if root s = [] then [] else root s @ ''/'') @ ''schemas/'' @ schemaName @ ''.json''"
  proof (cases "root s = []")
    case True
    then have "Join (root s # ?g) = Join ?g" by (simp add: Join_def)
    also have "\<dots> = join_with ''/'' ?g" using pg by (intro Join_plain) auto
    finally show ?thesis using True by (simp add: globalSchemaKey_def)
  next
    case False
    with assms(1) pg have "\<forall>e\<in>set (root s # ?g). plain e" by auto
    then have "Join (root s # ?g) = join_with ''/'' (root s # ?g)" by (intro Join_plain) auto
    then show ?thesis using False by (simp add: globalSchemaKey_def)
  qed
qed

subsection \<open>Put then Get\<close>

text \<open>
  C3. When \<^verbatim>\<open>Put\<close> of a payload under a tuple and state succeeds, and the backend
  does not fail the read, \<^verbatim>\<open>Get\<close> of the same tuple and state returns an item whose
  content is the payload, byte for byte, with the same MIME type (and the key and version
  that \<^verbatim>\<open>Put\<close> reported). This holds for every tenant, type, id, extension, state
  and payload, on versioning and non-versioning buckets alike.
\<close>

theorem Put_Get_roundtrip:
  assumes "Put s w tenant contentType ident ext content mimeType state = (Inr item, w')"
    and "faults w OpGetObject
           (contentKey s tenant contentType ident ext (if state = [] then StateLive else state)) = None"
    and "faults w OpReadBody
           (contentKey s tenant contentType ident ext (if state = [] then StateLive else state)) = None"
  shows "\<exists>got. Get s w' tenant contentType ident ext state = Inr got
           \<and> Content got = content \<and> ContentType got = mimeType
           \<and> Key got = Key item \<and> VersionID got = VersionID item"
proof -
  let ?key = "contentKey s tenant contentType ident ext (if state = [] then StateLive else state)"
  from assms(1) obtain r where put: "PutObject w ?key content (Some mimeType) [] = (Inr r, w')"
    and item: "item = \<lparr>Key = ?key, Content = content, ContentType = mimeType,
                   VersionID = aws_ToString r, Size = 0, Metadata = []\<rparr>"
    by (auto simp: Put_def Let_def split: prod.splits sum.splits)
  have f: "faults w' = faults w"
    using PutObject_fields(1)[of w ?key content "Some mimeType" "[]"] put by simp
  have c: "current w' ?key = Some \<lparr>version_id = r, delete_marker = False, body = content,
                 content_type = Some mimeType, metadata = []\<rparr>"
    by (rule PutObject_current[OF put])
  show ?thesis
    using assms(2,3) by (simp add: Get_def Let_def getByKey_def GetObject_def f c item)
qed

theorem Put_Get_roundtrip_witness:
  "fst (Put demo empty_world ''demo'' ''articles'' ''hello'' ''json'' ''{}'' ''application/json'' StateDraft)
     = Inr \<lparr>Key = ''development/tenants/demo/content/articles/_draft/hello.json'', Content = ''{}'',
            ContentType = ''application/json'', VersionID = ''v'', Size = 0, Metadata = []\<rparr>
   \<and> (\<exists>got. Get demo
          (snd (Put demo empty_world ''demo'' ''articles'' ''hello'' ''json'' ''{}'' ''application/json''
                  StateDraft))
          ''demo'' ''articles'' ''hello'' ''json'' StateDraft = Inr got
        \<and> Content got = ''{}'' \<and> ContentType got = ''application/json''
        \<and> Key got = ''development/tenants/demo/content/articles/_draft/hello.json''
        \<and> VersionID got = ''v'')"
proof -
  let ?put = "Put demo empty_world ''demo'' ''articles'' ''hello'' ''json'' ''{}'' ''application/json''
                StateDraft"
  let ?item = "\<lparr>Key = ''development/tenants/demo/content/articles/_draft/hello.json'', Content = ''{}'',
                 ContentType = ''application/json'', VersionID = ''v'', Size = 0, Metadata = []\<rparr>"
  have p1: "fst ?put = Inr ?item"
    by code_simp
  then have p: "?put = (Inr ?item, snd ?put)"
    by (metis prod.collapse)
  have f1: "faults empty_world OpGetObject (contentKey demo ''demo'' ''articles'' ''hello'' ''json''
              (if StateDraft = [] then StateLive else StateDraft)) = None"
    by (simp add: empty_world_def)
  have f2: "faults empty_world OpReadBody (contentKey demo ''demo'' ''articles'' ''hello'' ''json''
              (if StateDraft = [] then StateLive else StateDraft)) = None"
    by (simp add: empty_world_def)
  from Put_Get_roundtrip[OF p f1 f2] p1 show ?thesis by simp
qed

subsection \<open>Exists\<close>

text \<open>
  C7, as stated, fails. The object is in the bucket, the backend answers the HEAD with
  \<^verbatim>\<open>AccessDenied\<close>, and \<^verbatim>\<open>Exists\<close> reports \<open>(false, nil)\<close>: absence, not a fault.
\<close>

theorem Exists_hides_backend_fault:
  "current denied_world (contentKey demo ''demo'' ''articles'' ''hello'' ''json'' StateLive)
     = Some (stored ''v'' ''{}'')
   \<and> HeadObject denied_world (contentKey demo ''demo'' ''articles'' ''hello'' ''json'' StateLive)
     = Inl AccessDenied
   \<and> Exists demo denied_world ''demo'' ''articles'' ''hello'' ''json'' StateLive = Inr False"
  by code_simp

text \<open>
  C7, amended. \<^verbatim>\<open>Exists\<close> performs a HEAD on the key and maps every error of the
  backend, not-found or any other, to \<open>(false, nil)\<close>; a successful HEAD gives
  \<open>(true, nil)\<close>; it never returns an error.
\<close>

theorem Exists_maps_every_error_to_false:
  "(HeadObject w (contentKey s tenant contentType ident ext (if state = [] then StateLive else state)) = Inl err
      \<longrightarrow> Exists s w tenant contentType ident ext state = Inr False)
   \<and> (HeadObject w (contentKey s tenant contentType ident ext (if state = [] then StateLive else state)) = Inr v
      \<longrightarrow> Exists s w tenant contentType ident ext state = Inr True)
   \<and> \<not> isl (Exists s w tenant contentType ident ext state)"
  by (auto simp: Exists_def Let_def split: sum.splits)

theorem Exists_maps_every_error_to_false_witness:
  "HeadObject denied_world (contentKey demo ''demo'' ''articles'' ''hello'' ''json'' (if StateLive = [] then StateLive else StateLive)) = Inl AccessDenied
   \<and> Exists demo denied_world ''demo'' ''articles'' ''hello'' ''json'' StateLive = Inr False
   \<and> HeadObject empty_world (contentKey demo ''demo'' ''articles'' ''hello'' ''json'' (if StateLive = [] then StateLive else StateLive)) = Inl NotFound
   \<and> Exists demo empty_world ''demo'' ''articles'' ''hello'' ''json'' StateLive = Inr False"
proof -
  have h1: "HeadObject denied_world (contentKey demo ''demo'' ''articles'' ''hello'' ''json'' (if StateLive = [] then StateLive else StateLive)) = Inl AccessDenied"
    by code_simp
  have h2: "HeadObject empty_world (contentKey demo ''demo'' ''articles'' ''hello'' ''json'' (if StateLive = [] then StateLive else StateLive)) = Inl NotFound"
    by code_simp
  from Exists_maps_every_error_to_false[of denied_world demo "''demo''" "''articles''" "''hello''" "''json''" StateLive AccessDenied] h1
  have e1: "Exists demo denied_world ''demo'' ''articles'' ''hello'' ''json'' StateLive = Inr False" by blast
  from Exists_maps_every_error_to_false[of empty_world demo "''demo''" "''articles''" "''hello''" "''json''" StateLive NotFound] h2
  have e2: "Exists demo empty_world ''demo'' ''articles'' ''hello'' ''json'' StateLive = Inr False" by blast
  from h1 h2 e1 e2 show ?thesis by blast
qed

subsection \<open>Schema lookup\<close>

text \<open>
  C9, as stated, fails. The tenant schema exists, the backend denies the read of its key,
  and \<^verbatim>\<open>GetSchema\<close> returns the global schema with \<open>IsGlobal = True\<close>: an existing
  tenant schema does not shadow the global one when it cannot be read.
\<close>

theorem GetSchema_serves_global_for_unreadable_tenant:
  "current tenant_denied_world (tenantSchemaKey demo ''demo'' ''article'') = Some (stored ''vi'' ''{tenant}'')
   \<and> current tenant_denied_world (globalSchemaKey demo ''article'') = Some (stored ''v'' ''{global}'')
   \<and> GetSchema demo tenant_denied_world ''demo'' ''article''
       = Inr \<lparr>Name = ''article'', schema_Content = ''{global}'', IsGlobal = True\<rparr>"
  by code_simp

text \<open>
  C9, amended. \<^verbatim>\<open>GetSchema\<close> resolves the tenant layer first. When the tenant schema
  can be read it is returned with \<open>IsGlobal = False\<close> and its own content, whatever the
  global layer holds: it shadows, it never merges. When it cannot be read (it is absent, or
  the backend fails the read) and the global schema can be read, the global schema is
  returned with \<open>IsGlobal = True\<close>. When neither can be read the lookup fails with
  \<^verbatim>\<open>schema not found\<close>. In particular, after \<^verbatim>\<open>PutGlobalSchema\<close> of \<open>X\<close> and
  \<^verbatim>\<open>PutTenantSchema\<close> of \<open>Y\<close> under the same name have succeeded, a lookup whose
  tenant read the backend does not fail returns \<open>Y\<close> with \<open>IsGlobal = False\<close>.
  For plain identifiers the two keys are \<^verbatim>\<open><root>/tenants/<tenant>/schemas/<name>.json\<close>
  and \<^verbatim>\<open><root>/schemas/<name>.json\<close>.
\<close>

theorem GetSchema_tenant_first_when_readable:
  "GetSchema s w tenant schemaName =
     (case readable w (tenantSchemaKey s tenant schemaName) of
        Some t \<Rightarrow> Inr \<lparr>Name = schemaName, schema_Content = body t, IsGlobal = False\<rparr>
      | None \<Rightarrow>
          (case readable w (globalSchemaKey s schemaName) of
             Some g \<Rightarrow> Inr \<lparr>Name = schemaName, schema_Content = body g, IsGlobal = True\<rparr>
           | None \<Rightarrow> Inl (SchemaNotFound schemaName)))
   \<and> (\<forall>w1 w2 X Y.
         PutGlobalSchema s w schemaName X = (Inr (), w1)
         \<and> PutTenantSchema s w1 tenant schemaName Y = (Inr (), w2)
         \<and> faults w OpGetObject (tenantSchemaKey s tenant schemaName) = None
         \<and> faults w OpReadBody (tenantSchemaKey s tenant schemaName) = None
         \<longrightarrow> GetSchema s w2 tenant schemaName
               = Inr \<lparr>Name = schemaName, schema_Content = Y, IsGlobal = False\<rparr>)
   \<and> ((root s = [] \<or> plain (root s)) \<and> plain tenant \<and> CHR ''/'' \<notin> set schemaName
       \<longrightarrow> tenantSchemaKey s tenant schemaName
             = (if root s = [] then [] else root s @ ''/'') @ ''tenants/'' @ tenant @ ''/schemas/''
                 @ schemaName @ ''.json''
           \<and> globalSchemaKey s schemaName
             = (if root s = [] then [] else root s @ ''/'') @ ''schemas/'' @ schemaName @ ''.json'')"
proof -
  have main: "\<And>w. GetSchema s w tenant schemaName =
     (case readable w (tenantSchemaKey s tenant schemaName) of
        Some t \<Rightarrow> Inr \<lparr>Name = schemaName, schema_Content = body t, IsGlobal = False\<rparr>
      | None \<Rightarrow>
          (case readable w (globalSchemaKey s schemaName) of
             Some g \<Rightarrow> Inr \<lparr>Name = schemaName, schema_Content = body g, IsGlobal = True\<rparr>
           | None \<Rightarrow> Inl (SchemaNotFound schemaName)))"
    by (auto simp: GetSchema_def getByKey_def GetObject_def readable_def
          split: option.splits sum.splits)
  have shadow: "GetSchema s w2 tenant schemaName
               = Inr \<lparr>Name = schemaName, schema_Content = Y, IsGlobal = False\<rparr>"
    if a: "PutGlobalSchema s w schemaName X = (Inr (), w1)"
      "PutTenantSchema s w1 tenant schemaName Y = (Inr (), w2)"
      "faults w OpGetObject (tenantSchemaKey s tenant schemaName) = None"
      "faults w OpReadBody (tenantSchemaKey s tenant schemaName) = None"
    for w1 w2 X Y
  proof -
    let ?tk = "tenantSchemaKey s tenant schemaName"
    let ?gk = "globalSchemaKey s schemaName"
    from a(1) have w1: "w1 = snd (PutObject w ?gk X (Some ''application/json'') [])"
      by (auto simp: PutGlobalSchema_def split: prod.splits sum.splits)
    from a(2) obtain r where put: "PutObject w1 ?tk Y (Some ''application/json'') [] = (Inr r, w2)"
      by (auto simp: PutTenantSchema_def split: prod.splits sum.splits)
    have f1: "faults w1 = faults w" by (simp add: w1 PutObject_fields)
    have f2: "faults w2 = faults w1"
      using PutObject_fields(1)[of w1 ?tk Y "Some ''application/json''" "[]"] put by simp
    have c: "current w2 ?tk = Some \<lparr>version_id = r, delete_marker = False, body = Y,
                 content_type = Some ''application/json'', metadata = []\<rparr>"
      by (rule PutObject_current[OF put])
    have "readable w2 ?tk = Some \<lparr>version_id = r, delete_marker = False, body = Y,
                 content_type = Some ''application/json'', metadata = []\<rparr>"
      using a(3,4) by (simp add: readable_def f1 f2 c)
    then show ?thesis by (simp add: main)
  qed
  have keys: "(root s = [] \<or> plain (root s)) \<and> plain tenant \<and> CHR ''/'' \<notin> set schemaName
       \<longrightarrow> tenantSchemaKey s tenant schemaName
             = (if root s = [] then [] else root s @ ''/'') @ ''tenants/'' @ tenant @ ''/schemas/''
                 @ schemaName @ ''.json''
           \<and> globalSchemaKey s schemaName
             = (if root s = [] then [] else root s @ ''/'') @ ''schemas/'' @ schemaName @ ''.json''"
    using schema_keys_plain[of s tenant schemaName] by blast
  from main[of w] shadow keys show ?thesis by blast
qed

theorem GetSchema_tenant_first_when_readable_witness:
  "GetSchema demo schema_world ''demo'' ''article''
     = Inr \<lparr>Name = ''article'', schema_Content = ''{tenant}'', IsGlobal = False\<rparr>
   \<and> GetSchema demo global_only_world ''demo'' ''article''
     = Inr \<lparr>Name = ''article'', schema_Content = ''{global}'', IsGlobal = True\<rparr>
   \<and> GetSchema demo empty_world ''demo'' ''article'' = Inl (SchemaNotFound ''article'')
   \<and> GetSchema demo
        (snd (PutTenantSchema demo (snd (PutGlobalSchema demo empty_world ''article'' ''{X}''))
                ''demo'' ''article'' ''{Y}''))
        ''demo'' ''article''
     = Inr \<lparr>Name = ''article'', schema_Content = ''{Y}'', IsGlobal = False\<rparr>
   \<and> tenantSchemaKey demo ''demo'' ''article'' = ''development/tenants/demo/schemas/article.json''
   \<and> globalSchemaKey demo ''article'' = ''development/schemas/article.json''"
proof -
  note th = GetSchema_tenant_first_when_readable
  have t1: "readable schema_world (tenantSchemaKey demo ''demo'' ''article'') = Some (stored ''vi'' ''{tenant}'')"
    by code_simp
  have t2: "readable global_only_world (tenantSchemaKey demo ''demo'' ''article'') = None"
    "readable global_only_world (globalSchemaKey demo ''article'') = Some (stored ''v'' ''{global}'')"
    by code_simp+
  have t3: "readable empty_world (tenantSchemaKey demo ''demo'' ''article'') = None"
    "readable empty_world (globalSchemaKey demo ''article'') = None"
    by code_simp+
  have b: "body (stored ''vi'' ''{tenant}'') = ''{tenant}''" "body (stored ''v'' ''{global}'') = ''{global}''"
    by (simp_all add: stored_def)
  have r1: "GetSchema demo schema_world ''demo'' ''article''
     = Inr \<lparr>Name = ''article'', schema_Content = ''{tenant}'', IsGlobal = False\<rparr>"
    using th[of demo schema_world "''demo''" "''article''"] by (simp add: t1 b)
  have r2: "GetSchema demo global_only_world ''demo'' ''article''
     = Inr \<lparr>Name = ''article'', schema_Content = ''{global}'', IsGlobal = True\<rparr>"
    using th[of demo global_only_world "''demo''" "''article''"] by (simp add: t2 b)
  have r3: "GetSchema demo empty_world ''demo'' ''article'' = Inl (SchemaNotFound ''article'')"
    using th[of demo empty_world "''demo''" "''article''"] by (simp add: t3)
  let ?w1 = "snd (PutGlobalSchema demo empty_world ''article'' ''{X}'')"
  let ?w2 = "snd (PutTenantSchema demo ?w1 ''demo'' ''article'' ''{Y}'')"
  have p1: "fst (PutGlobalSchema demo empty_world ''article'' ''{X}'') = Inr ()" by code_simp
  have p2: "fst (PutTenantSchema demo ?w1 ''demo'' ''article'' ''{Y}'') = Inr ()" by code_simp
  have q1: "PutGlobalSchema demo empty_world ''article'' ''{X}'' = (Inr (), ?w1)"
    using p1 by (metis prod.collapse)
  have q2: "PutTenantSchema demo ?w1 ''demo'' ''article'' ''{Y}'' = (Inr (), ?w2)"
    using p2 by (metis prod.collapse)
  have f: "faults empty_world OpGetObject (tenantSchemaKey demo ''demo'' ''article'') = None"
    "faults empty_world OpReadBody (tenantSchemaKey demo ''demo'' ''article'') = None"
    by (simp_all add: empty_world_def)
  have r4: "GetSchema demo ?w2 ''demo'' ''article''
     = Inr \<lparr>Name = ''article'', schema_Content = ''{Y}'', IsGlobal = False\<rparr>"
    using th[of demo empty_world "''demo''" "''article''"] q1 q2 f by blast
  have pl: "(root demo = [] \<or> plain (root demo)) \<and> plain ''demo'' \<and> CHR ''/'' \<notin> set ''article''"
    by (simp add: plain_def demo_def)
  have r5: "tenantSchemaKey demo ''demo'' ''article'' = ''development/tenants/demo/schemas/article.json''
      \<and> globalSchemaKey demo ''article'' = ''development/schemas/article.json''"
    using th[of demo empty_world "''demo''" "''article''"] pl by (simp add: demo_def)
  from r1 r2 r3 r4 r5 show ?thesis by blast
qed

text \<open>
  C10. Whatever error the read of the tenant key gives (absence, a backend fault, a failed
  body read), \<^verbatim>\<open>GetSchema\<close> goes on to the global key: it serves the global schema
  when that read succeeds, and fails with \<^verbatim>\<open>schema not found\<close>, whatever the two
  underlying errors were, when it does not.
\<close>

theorem GetSchema_falls_back_on_any_error:
  "getByKey w (tenantSchemaKey s tenant schemaName) [] = Inl err \<Longrightarrow>
   GetSchema s w tenant schemaName =
     (case getByKey w (globalSchemaKey s schemaName) [] of
        Inl err' \<Rightarrow> Inl (SchemaNotFound schemaName)
      | Inr item \<Rightarrow> Inr \<lparr>Name = schemaName, schema_Content = Content item, IsGlobal = True\<rparr>)"
  by (simp add: GetSchema_def split: sum.splits)

theorem GetSchema_falls_back_on_any_error_witness:
  "current tenant_fault_world (tenantSchemaKey demo ''demo'' ''article'') = Some (stored ''vi'' ''{tenant}'')
   \<and> getByKey tenant_fault_world (tenantSchemaKey demo ''demo'' ''article'') [] = Inl (FailedToGetObject InternalError)
   \<and> GetSchema demo tenant_fault_world ''demo'' ''article''
       = Inr \<lparr>Name = ''article'', schema_Content = ''{global}'', IsGlobal = True\<rparr>
   \<and> getByKey all_fault_world (tenantSchemaKey demo ''demo'' ''article'') [] = Inl (FailedToGetObject AccessDenied)
   \<and> GetSchema demo all_fault_world ''demo'' ''article'' = Inl (SchemaNotFound ''article'')"
proof -
  have c: "current tenant_fault_world (tenantSchemaKey demo ''demo'' ''article'') = Some (stored ''vi'' ''{tenant}'')"
    by code_simp
  have h1: "getByKey tenant_fault_world (tenantSchemaKey demo ''demo'' ''article'') [] = Inl (FailedToGetObject InternalError)"
    by code_simp
  have g1: "getByKey tenant_fault_world (globalSchemaKey demo ''article'') []
      = Inr \<lparr>Key = ''development/schemas/article.json'', Content = ''{global}'', ContentType = ''application/json'',
             VersionID = ''v'', Size = 8, Metadata = []\<rparr>"
    by code_simp
  have h2: "getByKey all_fault_world (tenantSchemaKey demo ''demo'' ''article'') [] = Inl (FailedToGetObject AccessDenied)"
    by code_simp
  have g2: "getByKey all_fault_world (globalSchemaKey demo ''article'') [] = Inl (FailedToGetObject AccessDenied)"
    by code_simp
  have r1: "GetSchema demo tenant_fault_world ''demo'' ''article''
       = Inr \<lparr>Name = ''article'', schema_Content = ''{global}'', IsGlobal = True\<rparr>"
    using GetSchema_falls_back_on_any_error[OF h1] by (simp add: g1)
  have r2: "GetSchema demo all_fault_world ''demo'' ''article'' = Inl (SchemaNotFound ''article'')"
    using GetSchema_falls_back_on_any_error[OF h2] by (simp add: g2)
  from c h1 h2 r1 r2 show ?thesis by blast
qed

subsection \<open>The extension resolver\<close>

lemma index_from_absent:
  "c \<notin> set s \<Longrightarrow> index_from i s [c] = -1"
  by (induction s arbitrary: i) auto

lemma LastIndex_absent: "c \<notin> set s \<Longrightarrow> LastIndex s [c] = -1"
  by (simp add: LastIndex_def Index_def index_from_absent)

lemma best_key_loop_kept:
  "best \<noteq> [] \<Longrightarrow>
   best_key_loop best objs =
     (case find (\<lambda>k. \<not> suffix ''.json'' k) (map (\<lambda>obj. aws_ToString (obj_Key obj)) objs) of
        Some k \<Rightarrow> k | None \<Rightarrow> best)"
  by (induction objs arbitrary: best) (auto simp: Let_def HasSuffix_def)

lemma best_key_loop_prefer:
  "best_key_loop [] objs = prefer_non_json (map (\<lambda>obj. aws_ToString (obj_Key obj)) objs)"
proof (cases objs)
  case Nil
  then show ?thesis by (simp add: prefer_non_json_def)
next
  case (Cons obj rest)
  show ?thesis
  proof (cases "suffix ''.json'' (aws_ToString (obj_Key obj))")
    case True
    then have ne: "aws_ToString (obj_Key obj) \<noteq> []" by auto
    with True Cons show ?thesis
      by (simp add: prefer_non_json_def Let_def HasSuffix_def best_key_loop_kept
            split: option.splits)
  next
    case False
    with Cons show ?thesis by (simp add: prefer_non_json_def Let_def HasSuffix_def)
  qed
qed

lemma ListObjectsV2_cap:
  "ListObjectsV2 w pfx (Some n) = Inr contents \<Longrightarrow> length contents \<le> n"
  by (auto simp: ListObjectsV2_def Let_def split: option.splits)

text \<open>
  C8. For an id without a dot, when no hint is given or the hinted key cannot be opened,
  and the listing of \<^verbatim>\<open>contentPrefix + id + "."\<close> (capped at 10) succeeds:
  the listing has at most 10 entries; when it is empty the call fails with
  \<^verbatim>\<open>content not found\<close>; otherwise the call opens the first listed key that does
  not end in \<^verbatim>\<open>.json\<close>, or the first listed key when all of them do.
\<close>

theorem FindContentStream_prefers_non_json:
  assumes "CHR ''.'' \<notin> set ident"
    and "extHint = [] \<or> isl (getStreamByKey w
            (contentKey s tenant contentType ident extHint (if state = [] then StateLive else state)) [])"
    and "ListObjectsV2 w
           (contentPrefix s tenant contentType (if state = [] then StateLive else state) @ ident @ ''.'')
           (Some 10) = Inr contents"
  shows "length contents \<le> 10
       \<and> FindContentStream s w tenant contentType ident extHint state =
           (if contents = [] then Inl (ContentNotFound ident)
            else getStreamByKey w
                   (prefer_non_json (map (\<lambda>obj. aws_ToString (obj_Key obj)) contents)) [])"
proof -
  have idx: "LastIndex ident ''.'' = -1" using assms(1) by (rule LastIndex_absent)
  have cap: "length contents \<le> 10" using assms(3) by (rule ListObjectsV2_cap)
  have hint:
    "(if extHint \<noteq> []
      then (case getStreamByKey w (contentKey s tenant contentType ident extHint
                   (if state = [] then StateLive else state)) [] of
              Inr stream \<Rightarrow> Some stream | Inl err \<Rightarrow> None)
      else None) = None"
  proof (cases "extHint = []")
    case True
    then show ?thesis by simp
  next
    case False
    with assms(2) obtain err where
      "getStreamByKey w (contentKey s tenant contentType ident extHint
          (if state = [] then StateLive else state)) [] = Inl err"
      by (auto simp: isl_def)
    then show ?thesis by simp
  qed
  show ?thesis
    using cap by (simp add: FindContentStream_def Let_def idx hint assms(3) best_key_loop_prefer)
qed

theorem FindContentStream_prefers_non_json_witness:
  "FindContentStream demo logo_world ''demo'' ''images'' ''logo'' ''html'' StateLive
     = Inr \<lparr>stream_Key = ''development/tenants/demo/content/images/logo.png'', Body = ''PNG'',
            stream_ContentType = ''image/png'', stream_VersionID = ''vi'', stream_Size = 3,
            stream_Metadata = []\<rparr>
   \<and> FindContentStream demo json_only_world ''demo'' ''images'' ''logo'' [] StateLive
     = Inr \<lparr>stream_Key = ''development/tenants/demo/content/images/logo.json'', Body = ''{}'',
            stream_ContentType = ''application/json'', stream_VersionID = ''v'', stream_Size = 2,
            stream_Metadata = []\<rparr>
   \<and> FindContentStream demo empty_world ''demo'' ''images'' ''logo'' [] StateLive
     = Inl (ContentNotFound ''logo'')"
proof -
  have bare: "CHR ''.'' \<notin> set ''logo''" by simp
  have hint1: "''html'' = [] \<or> isl (getStreamByKey logo_world
            (contentKey demo ''demo'' ''images'' ''logo'' ''html''
               (if StateLive = [] then StateLive else StateLive)) [])"
    by code_simp
  have l1: "ListObjectsV2 logo_world
           (contentPrefix demo ''demo'' ''images'' (if StateLive = [] then StateLive else StateLive)
              @ ''logo'' @ ''.'') (Some 10)
         = Inr [\<lparr>obj_Key = Some ''development/tenants/demo/content/images/logo.json'', obj_Size = Some 2\<rparr>,
                \<lparr>obj_Key = Some ''development/tenants/demo/content/images/logo.png'', obj_Size = Some 3\<rparr>]"
    by code_simp
  have l2: "ListObjectsV2 json_only_world
           (contentPrefix demo ''demo'' ''images'' (if StateLive = [] then StateLive else StateLive)
              @ ''logo'' @ ''.'') (Some 10)
         = Inr [\<lparr>obj_Key = Some ''development/tenants/demo/content/images/logo.json'', obj_Size = Some 2\<rparr>,
                \<lparr>obj_Key = Some ''development/tenants/demo/content/images/logo.meta.json'', obj_Size = Some 2\<rparr>]"
    by code_simp
  have l3: "ListObjectsV2 empty_world
           (contentPrefix demo ''demo'' ''images'' (if StateLive = [] then StateLive else StateLive)
              @ ''logo'' @ ''.'') (Some 10) = Inr []"
    by code_simp
  have g1: "getStreamByKey logo_world ''development/tenants/demo/content/images/logo.png'' []
     = Inr \<lparr>stream_Key = ''development/tenants/demo/content/images/logo.png'', Body = ''PNG'',
            stream_ContentType = ''image/png'', stream_VersionID = ''vi'', stream_Size = 3,
            stream_Metadata = []\<rparr>"
    by code_simp
  have g2: "getStreamByKey json_only_world ''development/tenants/demo/content/images/logo.json'' []
     = Inr \<lparr>stream_Key = ''development/tenants/demo/content/images/logo.json'', Body = ''{}'',
            stream_ContentType = ''application/json'', stream_VersionID = ''v'', stream_Size = 2,
            stream_Metadata = []\<rparr>"
    by code_simp
  have p1: "prefer_non_json [''development/tenants/demo/content/images/logo.json'',
                             ''development/tenants/demo/content/images/logo.png'']
            = ''development/tenants/demo/content/images/logo.png''"
    by code_simp
  have p2: "prefer_non_json [''development/tenants/demo/content/images/logo.json'',
                             ''development/tenants/demo/content/images/logo.meta.json'']
            = ''development/tenants/demo/content/images/logo.json''"
    by code_simp
  have r1: "FindContentStream demo logo_world ''demo'' ''images'' ''logo'' ''html'' StateLive
     = Inr \<lparr>stream_Key = ''development/tenants/demo/content/images/logo.png'', Body = ''PNG'',
            stream_ContentType = ''image/png'', stream_VersionID = ''vi'', stream_Size = 3,
            stream_Metadata = []\<rparr>"
    using FindContentStream_prefers_non_json[OF bare hint1 l1]
    by (simp add: aws_ToString_def p1 g1)
  have r2: "FindContentStream demo json_only_world ''demo'' ''images'' ''logo'' [] StateLive
     = Inr \<lparr>stream_Key = ''development/tenants/demo/content/images/logo.json'', Body = ''{}'',
            stream_ContentType = ''application/json'', stream_VersionID = ''v'', stream_Size = 2,
            stream_Metadata = []\<rparr>"
    using FindContentStream_prefers_non_json[OF bare _ l2]
    by (simp add: aws_ToString_def p2 g2)
  have r3: "FindContentStream demo empty_world ''demo'' ''images'' ''logo'' [] StateLive
     = Inl (ContentNotFound ''logo'')"
    using FindContentStream_prefers_non_json[OF bare _ l3] by simp
  from r1 r2 r3 show ?thesis by blast
qed

subsection \<open>Transitions\<close>












text \<open>
  C1, as stated, fails: a request from live to draft is not rejected. Both states are valid,
  they differ, and the call moves the live content to draft.
\<close>

theorem Transition_accepts_live_source:
  "ValidState StateLive \<and> ValidState StateDraft \<and> StateLive \<noteq> StateDraft
   \<and> Get demo live_world ''demo'' ''articles'' ''hello'' ''json'' StateLive
       = Inr \<lparr>Key = ''development/tenants/demo/content/articles/hello.json'', Content = ''{}'',
              ContentType = ''application/json'', VersionID = ''v'', Size = 2, Metadata = []\<rparr>
   \<and> fst (Transition demo decode_comment live_world ''demo'' ''articles'' ''hello'' ''json''
            StateLive StateDraft)
       = Inr \<lparr>Key = ''development/tenants/demo/content/articles/_draft/hello.json'', Content = ''{}'',
              ContentType = ''application/json'', VersionID = ''vi'', Size = 0, Metadata = []\<rparr>
   \<and> Get demo (snd (Transition demo decode_comment live_world ''demo'' ''articles'' ''hello'' ''json''
                      StateLive StateDraft))
         ''demo'' ''articles'' ''hello'' ''json'' StateLive
       = Inl (FailedToGetObject NoSuchKey)"
  by code_simp

text \<open>
  C1, amended. \<^verbatim>\<open>Transition\<close> fails with \<^verbatim>\<open>source and target states are the same\<close>
  (the specification's \<open>InvalidTransition\<close>) exactly when the source state equals the
  target state. A live source is not rejected: whenever the live content can be read and
  the write to the target state succeeds, the transition to draft, to pending or to any
  other state succeeds, returns the written item, and leaves the store as the write
  followed by the delete of the live key left it; no comment is consulted and none is
  deleted. From any other source, to a different state, the transition succeeds whenever
  the comment check finds nothing unresolved and the read and the write succeed; the store
  is then the write, the delete of the source and the comment cleanup.
\<close>

theorem Transition_rejects_only_same_state:
  "((fst (Transition s unmarshal w tenant contentType ident ext fromState toState) = Inl SameState)
      = (fromState = toState))
   \<and> (\<forall>src tgt w1.
         toState \<noteq> StateLive
         \<and> Get s w tenant contentType ident ext StateLive = Inr src
         \<and> Put s w tenant contentType ident ext (Content src) (ContentType src) toState = (Inr tgt, w1)
         \<longrightarrow> Transition s unmarshal w tenant contentType ident ext StateLive toState
               = (Inr tgt, snd (Delete s w1 tenant contentType ident ext StateLive)))
   \<and> (\<forall>src tgt w1.
         fromState \<noteq> toState \<and> fromState \<noteq> StateLive
         \<and> HasUnresolvedComments s unmarshal w tenant contentType ident fromState = Inr False
         \<and> Get s w tenant contentType ident ext fromState = Inr src
         \<and> Put s w tenant contentType ident ext (Content src) (ContentType src) toState = (Inr tgt, w1)
         \<longrightarrow> Transition s unmarshal w tenant contentType ident ext fromState toState
               = (Inr tgt,
                  snd (DeleteAllComments s unmarshal
                         (snd (Delete s w1 tenant contentType ident ext fromState))
                         tenant contentType ident fromState)))"
proof (intro conjI allI impI)
  show "(fst (Transition s unmarshal w tenant contentType ident ext fromState toState) = Inl SameState)
      = (fromState = toState)"
    by (auto simp: Transition_def Let_def split: sum.splits bool.splits prod.splits)
next
  fix src tgt w1
  assume "toState \<noteq> StateLive
         \<and> Get s w tenant contentType ident ext StateLive = Inr src
         \<and> Put s w tenant contentType ident ext (Content src) (ContentType src) toState = (Inr tgt, w1)"
  then show "Transition s unmarshal w tenant contentType ident ext StateLive toState
               = (Inr tgt, snd (Delete s w1 tenant contentType ident ext StateLive))"
    by (auto simp: Transition_def Let_def)
next
  fix src tgt w1
  assume "fromState \<noteq> toState \<and> fromState \<noteq> StateLive
         \<and> HasUnresolvedComments s unmarshal w tenant contentType ident fromState = Inr False
         \<and> Get s w tenant contentType ident ext fromState = Inr src
         \<and> Put s w tenant contentType ident ext (Content src) (ContentType src) toState = (Inr tgt, w1)"
  then show "Transition s unmarshal w tenant contentType ident ext fromState toState
               = (Inr tgt,
                  snd (DeleteAllComments s unmarshal
                         (snd (Delete s w1 tenant contentType ident ext fromState))
                         tenant contentType ident fromState))"
    by (auto simp: Transition_def Let_def)
qed

theorem Transition_rejects_only_same_state_witness:
  "fst (Transition demo decode_comment live_world ''demo'' ''articles'' ''hello'' ''json''
          StateDraft StateDraft) = Inl SameState
   \<and> fst (Transition demo decode_comment live_world ''demo'' ''articles'' ''hello'' ''json''
          StateLive StateDraft)
       = Inr \<lparr>Key = ''development/tenants/demo/content/articles/_draft/hello.json'', Content = ''{}'',
              ContentType = ''application/json'', VersionID = ''vi'', Size = 0, Metadata = []\<rparr>
   \<and> ListComments demo decode_comment commented_live_world ''demo'' ''articles'' ''hello'' StateLive
       = Inr [\<lparr>ID = ''c1'', Author = ''reviewer'', Message = ''fix'', Resolved = False, ResolvedBy = []\<rparr>]
   \<and> Transition demo decode_comment commented_live_world ''demo'' ''articles'' ''hello'' ''json''
          StateLive StatePending
       = (Inr \<lparr>Key = ''development/tenants/demo/content/articles/_pending/hello.json'', Content = ''{}'',
               ContentType = ''application/json'', VersionID = ''vii'', Size = 0, Metadata = []\<rparr>,
          snd (Delete demo
                 (snd (Put demo commented_live_world ''demo'' ''articles'' ''hello'' ''json'' ''{}''
                         ''application/json'' StatePending))
                 ''demo'' ''articles'' ''hello'' ''json'' StateLive))
   \<and> fst (Transition demo decode_comment (draft_world ''Rc1'') ''demo'' ''articles'' ''hello'' ''json''
          StateDraft StateLive)
       = Inr \<lparr>Key = ''development/tenants/demo/content/articles/hello.json'', Content = ''{}'',
              ContentType = ''application/json'', VersionID = ''vii'', Size = 0, Metadata = []\<rparr>"
proof -
  note th = Transition_rejects_only_same_state
  have r1: "fst (Transition demo decode_comment live_world ''demo'' ''articles'' ''hello'' ''json''
          StateDraft StateDraft) = Inl SameState"
    using th[of demo decode_comment live_world "''demo''" "''articles''" "''hello''" "''json''"
            StateDraft StateDraft] by simp
  let ?src = "\<lparr>Key = ''development/tenants/demo/content/articles/hello.json'', Content = ''{}'',
                ContentType = ''application/json'', VersionID = ''v'', Size = 2, Metadata = []\<rparr>"
  let ?tgtD = "\<lparr>Key = ''development/tenants/demo/content/articles/_draft/hello.json'', Content = ''{}'',
              ContentType = ''application/json'', VersionID = ''vi'', Size = 0, Metadata = []\<rparr>"
  let ?putD = "Put demo live_world ''demo'' ''articles'' ''hello'' ''json'' ''{}'' ''application/json'' StateDraft"
  have nd: "StateDraft \<noteq> StateLive" "StatePending \<noteq> StateLive" "StateDraft \<noteq> StateLive"
    by (simp_all add: StateDraft_def StatePending_def StateLive_def)
  have gD: "Get demo live_world ''demo'' ''articles'' ''hello'' ''json'' StateLive = Inr ?src"
    by code_simp
  have "fst ?putD = Inr ?tgtD" by code_simp
  then have pD: "?putD = (Inr ?tgtD, snd ?putD)" by (metis prod.collapse)
  have r2: "fst (Transition demo decode_comment live_world ''demo'' ''articles'' ''hello'' ''json''
          StateLive StateDraft) = Inr ?tgtD"
    using th[of demo decode_comment live_world "''demo''" "''articles''" "''hello''" "''json''"
            StateLive StateDraft] nd(1) gD pD by simp
  let ?tgtP = "\<lparr>Key = ''development/tenants/demo/content/articles/_pending/hello.json'', Content = ''{}'',
               ContentType = ''application/json'', VersionID = ''vii'', Size = 0, Metadata = []\<rparr>"
  let ?putP = "Put demo commented_live_world ''demo'' ''articles'' ''hello'' ''json'' ''{}''
                 ''application/json'' StatePending"
  have lc: "ListComments demo decode_comment commented_live_world ''demo'' ''articles'' ''hello'' StateLive
       = Inr [\<lparr>ID = ''c1'', Author = ''reviewer'', Message = ''fix'', Resolved = False, ResolvedBy = []\<rparr>]"
    by code_simp
  have gP: "Get demo commented_live_world ''demo'' ''articles'' ''hello'' ''json'' StateLive = Inr ?src"
    by code_simp
  have "fst ?putP = Inr ?tgtP" by code_simp
  then have pP: "?putP = (Inr ?tgtP, snd ?putP)" by (metis prod.collapse)
  have r3: "Transition demo decode_comment commented_live_world ''demo'' ''articles'' ''hello'' ''json''
          StateLive StatePending
       = (Inr ?tgtP, snd (Delete demo (snd ?putP) ''demo'' ''articles'' ''hello'' ''json'' StateLive))"
    using th[of demo decode_comment commented_live_world "''demo''" "''articles''" "''hello''" "''json''"
            StateLive StatePending] nd(2) gP pP by simp
  let ?srcR = "\<lparr>Key = ''development/tenants/demo/content/articles/_draft/hello.json'', Content = ''{}'',
                ContentType = ''application/json'', VersionID = ''vi'', Size = 2, Metadata = []\<rparr>"
  let ?tgtL = "\<lparr>Key = ''development/tenants/demo/content/articles/hello.json'', Content = ''{}'',
              ContentType = ''application/json'', VersionID = ''vii'', Size = 0, Metadata = []\<rparr>"
  let ?putL = "Put demo (draft_world ''Rc1'') ''demo'' ''articles'' ''hello'' ''json'' ''{}''
                 ''application/json'' StateLive"
  have hu: "HasUnresolvedComments demo decode_comment (draft_world ''Rc1'') ''demo'' ''articles'' ''hello''
              StateDraft = Inr False"
    by code_simp
  have gL: "Get demo (draft_world ''Rc1'') ''demo'' ''articles'' ''hello'' ''json'' StateDraft = Inr ?srcR"
    by code_simp
  have "fst ?putL = Inr ?tgtL" by code_simp
  then have pL: "?putL = (Inr ?tgtL, snd ?putL)" by (metis prod.collapse)
  have r4: "fst (Transition demo decode_comment (draft_world ''Rc1'') ''demo'' ''articles'' ''hello'' ''json''
          StateDraft StateLive) = Inr ?tgtL"
    using th[of demo decode_comment "draft_world ''Rc1''" "''demo''" "''articles''" "''hello''" "''json''"
            StateDraft StateLive] nd(3) hu gL pL by simp
  from r1 r2 lc r3 r4 show ?thesis by blast
qed

subsection \<open>The live listing\<close>

text \<open>What the skip in \<^verbatim>\<open>List\<close> does achieve: no key whose path under the type directory
  begins with \<^verbatim>\<open>_draft/\<close> or \<^verbatim>\<open>_pending/\<close> is in a live listing (comments are stored
  under those two directories).\<close>

lemma Contains_append: "Contains (a @ sub @ b) sub"
proof (induction a)
  case Nil
  show ?case
  proof (cases "sub @ b")
    case Nil
    then show ?thesis by simp
  next
    case (Cons c cs)
    have "prefix sub (sub @ b)" by simp
    with Cons show ?thesis by simp
  qed
next
  case (Cons x a)
  then show ?case by simp
qed

lemma list_items_live_skips:
  "item \<in> set (list_items StateLive objs) \<Longrightarrow>
   \<not> Contains (Key item) ''/_draft/'' \<and> \<not> Contains (Key item) ''/_pending/''"
  by (induction objs) (auto simp: Let_def split: if_splits)

lemma contentPrefix_ends_in_slash: "\<exists>p. contentPrefix s tenant contentType state = p @ ''/''"
  by (simp add: contentPrefix_def)

lemma List_live_excludes_draft_and_pending:
  assumes "List s w tenant contentType StateLive = Inr items"
    and "item \<in> set items"
    and "Key item = contentPrefix s tenant contentType StateLive @ rel"
  shows "\<not> prefix ''_draft/'' rel \<and> \<not> prefix ''_pending/'' rel"
proof -
  have st: "StateLive \<noteq> []" by (simp add: StateLive_def)
  from assms(1) obtain contents where "items = list_items StateLive contents"
    using st by (auto simp: List_def Let_def split: sum.splits)
  with assms(2) have skip: "\<not> Contains (Key item) ''/_draft/''" "\<not> Contains (Key item) ''/_pending/''"
    using list_items_live_skips by blast+
  obtain p where p: "contentPrefix s tenant contentType StateLive = p @ ''/''"
    using contentPrefix_ends_in_slash by blast
  have "\<not> prefix ''_draft/'' rel"
  proof
    assume "prefix ''_draft/'' rel"
    then obtain r where "rel = ''_draft/'' @ r" by (auto simp: prefix_def)
    with assms(3) p have "Key item = p @ ''/_draft/'' @ r" by simp
    with skip(1) Contains_append[of p "''/_draft/''" r] show False by simp
  qed
  moreover have "\<not> prefix ''_pending/'' rel"
  proof
    assume "prefix ''_pending/'' rel"
    then obtain r where "rel = ''_pending/'' @ r" by (auto simp: prefix_def)
    with assms(3) p have "Key item = p @ ''/_pending/'' @ r" by simp
    with skip(2) Contains_append[of p "''/_pending/''" r] show False by simp
  qed
  ultimately show ?thesis by blast
qed

text \<open>
  C6 fails on the code. The type directory holds a live item, its draft with a comment,
  a pending item and the history record of a publish. The live listing leaves out the
  draft, the comment and the pending item, and returns the history record next to the
  live item: the key \<^verbatim>\<open>_history/hello/vii.json\<close> under the type directory is listed.
\<close>

theorem List_live_includes_history_record:
  "historyKey demo ''demo'' ''articles'' ''hello'' ''vii''
     = ''development/tenants/demo/content/articles/_history/hello/vii.json''
   \<and> contentPrefix demo ''demo'' ''articles'' StateLive @ ''_history/hello/vii.json''
     = ''development/tenants/demo/content/articles/_history/hello/vii.json''
   \<and> List demo published_world ''demo'' ''articles'' StateLive
     = Inr [\<lparr>Key = ''development/tenants/demo/content/articles/_history/hello/vii.json'',
              Content = [], ContentType = [], VersionID = [], Size = 9, Metadata = []\<rparr>,
            \<lparr>Key = ''development/tenants/demo/content/articles/hello.json'',
              Content = [], ContentType = [], VersionID = [], Size = 6, Metadata = []\<rparr>]"
  by code_simp

subsection \<open>Version pruning\<close>

text \<open>The buffered write never starts a goroutine, whatever its arguments.\<close>

lemma Put_starts_no_goroutine:
  "goroutines (snd (Put s w tenant contentType ident ext content mimeType state)) = goroutines w"
  using PutObject_fields(3)[of w "contentKey s tenant contentType ident ext (if state = [] then StateLive else state)" content "Some mimeType" "[]"]
  by (auto simp: Put_def Let_def split: prod.splits sum.splits)

text \<open>
  C4 fails on the code. With \<open>maxVersions = 1\<close> and one version already stored, a live
  write through the buffered \<^verbatim>\<open>Put\<close> starts no goroutine, and once everything started
  has run the key holds two versions; the same write through \<^verbatim>\<open>PutStream\<close> starts
  \<^verbatim>\<open>pruneVersions\<close> for the key, which leaves one.
\<close>

theorem Put_live_starts_no_prune:
  "goroutines (snd (Put keep_one live_world ''demo'' ''articles'' ''hello'' ''json'' ''{2}''
                      ''application/json'' StateLive)) = []
   \<and> version_ids (run_goroutines keep_one
         (snd (Put keep_one live_world ''demo'' ''articles'' ''hello'' ''json'' ''{2}''
                 ''application/json'' StateLive)))
         ''development/tenants/demo/content/articles/hello.json''
       = Some [Some ''vi'', Some ''v'']
   \<and> goroutines (snd (PutStream keep_one live_world ''demo'' ''articles'' ''hello'' ''json'' ''{2}'' 3
                      ''application/json'' StateLive []))
       = [''development/tenants/demo/content/articles/hello.json'']
   \<and> version_ids (run_goroutines keep_one
         (snd (PutStream keep_one live_world ''demo'' ''articles'' ''hello'' ''json'' ''{2}'' 3
                 ''application/json'' StateLive [])))
         ''development/tenants/demo/content/articles/hello.json''
       = Some [Some ''vi'']"
  by code_simp

text \<open>
  C5, as stated, fails for zero. A configuration with \<open>MaxVersions = 0\<close> gives a storage
  with \<open>maxVersions = 10\<close>; a live write onto a key that holds ten versions is followed
  by a prune that deletes the oldest one.
\<close>

theorem zero_maxVersions_prunes:
  "NewS3Storage (Inr ()) zero_config = Inr demo
   \<and> version_ids (Some ten_versions_world) ''development/tenants/demo/content/articles/hello.json''
       = Some [Some ''viiiiiiiii'', Some ''viiiiiiii'', Some ''viiiiiii'', Some ''viiiiii'', Some ''viiiii'',
               Some ''viiii'', Some ''viii'', Some ''vii'', Some ''vi'', Some ''v'']
   \<and> version_ids (run_goroutines demo
         (snd (PutStream demo ten_versions_world ''demo'' ''articles'' ''hello'' ''json'' ''{}'' 2
                 ''application/json'' StateLive [])))
         ''development/tenants/demo/content/articles/hello.json''
       = Some [Some ''viiiiiiiiii'', Some ''viiiiiiiii'', Some ''viiiiiiii'', Some ''viiiiiii'', Some ''viiiiii'',
               Some ''viiiii'', Some ''viiii'', Some ''viii'', Some ''vii'', Some ''vi'']"
  by code_simp

lemma live_write_step_unlimited:
  assumes "maxVersions s \<le> 0" "versioning w"
  shows "goroutines (live_write_step s x w) = goroutines w"
    and "versioning (live_write_step s x w)"
    and "suffix (versions_of w key) (versions_of (live_write_step s x w) key)"
proof -
  let ?kS = "contentKey s (lw_tenant x) (lw_type x) (lw_id x) (lw_ext x) StateLive"
  have st: "StateLive \<noteq> []" by (simp add: StateLive_def)
  have stream: "snd (PutStream s w (lw_tenant x) (lw_type x) (lw_id x) (lw_ext x) (lw_content x)
                  (int (length (lw_content x))) (lw_mime x) StateLive (lw_metadata x))
      = snd (PutObject w ?kS (lw_content x) (Some (lw_mime x)) (lw_metadata x))"
    using assms(1) st by (simp add: PutStream_def Let_def split: prod.splits sum.splits)
  have buffered: "snd (Put s w (lw_tenant x) (lw_type x) (lw_id x) (lw_ext x) (lw_content x)
                  (lw_mime x) StateLive)
      = snd (PutObject w ?kS (lw_content x) (Some (lw_mime x)) [])"
    using st by (simp add: Put_def Let_def split: prod.splits sum.splits)
  show "goroutines (live_write_step s x w) = goroutines w"
    by (simp add: live_write_step_def stream buffered PutObject_fields)
  show "versioning (live_write_step s x w)"
    using assms(2) by (simp add: live_write_step_def stream buffered PutObject_fields)
  show "suffix (versions_of w key) (versions_of (live_write_step s x w) key)"
    using assms(2) by (simp add: live_write_step_def stream buffered PutObject_versions_grow)
qed

lemma run_goroutines_none_pending: "goroutines w = [] \<Longrightarrow> run_goroutines s w = Some w"
  by (simp add: run_goroutines_def)

lemma live_writes_unlimited:
  assumes "maxVersions s \<le> 0"
  shows "versioning w \<Longrightarrow> goroutines w = [] \<Longrightarrow>
         \<exists>w'. live_writes s ws w = Some w' \<and> goroutines w' = [] \<and> versioning w'
              \<and> (\<forall>key. suffix (versions_of w key) (versions_of w' key))"
proof (induction ws arbitrary: w)
  case Nil
  then show ?case by simp
next
  case (Cons x xs)
  let ?w1 = "live_write_step s x w"
  have g: "goroutines ?w1 = []" and v: "versioning ?w1"
    and grow: "\<And>key. suffix (versions_of w key) (versions_of ?w1 key)"
    using live_write_step_unlimited[OF assms Cons.prems(1)] Cons.prems(2) by simp_all
  from Cons.IH[OF v g] obtain w' where
    w': "live_writes s xs ?w1 = Some w'" "goroutines w' = []" "versioning w'"
      "\<forall>key. suffix (versions_of ?w1 key) (versions_of w' key)" by blast
  have "live_writes s (x # xs) w = Some w'"
    by (simp add: run_goroutines_none_pending[OF g] w'(1))
  moreover have "\<forall>key. suffix (versions_of w key) (versions_of w' key)"
    using grow w'(4) suffix_order.trans by blast
  ultimately show ?case using w'(2,3) by blast
qed

text \<open>
  C5, amended. A configured \<open>MaxVersions\<close> of zero is replaced by the default, 10. A
  negative one means unlimited retention: on a versioning bucket with no prune pending,
  every sequence of live writes, through \<^verbatim>\<open>Put\<close> or \<^verbatim>\<open>PutStream\<close>, runs to its
  end, leaves no prune pending, and keeps every version of every key that was there
  before (the old versions are a suffix of the new list).
\<close>

theorem negative_maxVersions_is_unlimited:
  assumes "NewS3Storage awsCfg cfg = Inr s"
  shows "(cfg_MaxVersions cfg = 0 \<longrightarrow> maxVersions s = 10)
       \<and> (cfg_MaxVersions cfg < 0 \<and> versioning w \<and> goroutines w = [] \<longrightarrow>
            (\<exists>w'. live_writes s ws w = Some w' \<and> goroutines w' = []
                  \<and> (\<forall>key. suffix (versions_of w key) (versions_of w' key))))"
proof -
  from assms have mv: "maxVersions s = (if cfg_MaxVersions cfg = 0 then 10 else cfg_MaxVersions cfg)"
    by (auto simp: NewS3Storage_def Let_def split: sum.splits)
  show ?thesis
  proof (intro conjI impI)
    assume "cfg_MaxVersions cfg = 0"
    with mv show "maxVersions s = 10" by simp
  next
    assume a: "cfg_MaxVersions cfg < 0 \<and> versioning w \<and> goroutines w = []"
    with mv have "maxVersions s \<le> 0" by simp
    from live_writes_unlimited[OF this, of w ws] a
    show "\<exists>w'. live_writes s ws w = Some w' \<and> goroutines w' = []
                  \<and> (\<forall>key. suffix (versions_of w key) (versions_of w' key))"
      by blast
  qed
qed

theorem negative_maxVersions_is_unlimited_witness:
  "NewS3Storage (Inr ()) all_config = Inr unlimited
   \<and> NewS3Storage (Inr ()) zero_config = Inr demo \<and> maxVersions demo = 10
   \<and> version_ids (live_writes unlimited two_writes ten_versions_world)
        ''development/tenants/demo/content/articles/hello.json''
      = Some [Some ''viiiiiiiiiii'', Some ''viiiiiiiiii'', Some ''viiiiiiiii'', Some ''viiiiiiii'',
              Some ''viiiiiii'', Some ''viiiiii'', Some ''viiiii'', Some ''viiii'', Some ''viii'',
              Some ''vii'', Some ''vi'', Some ''v'']
   \<and> (\<exists>w'. live_writes unlimited two_writes ten_versions_world = Some w' \<and> goroutines w' = []
          \<and> (\<forall>key. suffix (versions_of ten_versions_world key) (versions_of w' key)))"
proof -
  have n1: "NewS3Storage (Inr ()) all_config = Inr unlimited" by code_simp
  have n2: "NewS3Storage (Inr ()) zero_config = Inr demo" by code_simp
  have c0: "cfg_MaxVersions zero_config = 0" by (simp add: zero_config_def)
  have c1: "cfg_MaxVersions all_config < 0 \<and> versioning ten_versions_world
              \<and> goroutines ten_versions_world = []"
    by (simp add: all_config_def ten_versions_world_def)
  have e: "version_ids (live_writes unlimited two_writes ten_versions_world)
        ''development/tenants/demo/content/articles/hello.json''
      = Some [Some ''viiiiiiiiiii'', Some ''viiiiiiiiii'', Some ''viiiiiiiii'', Some ''viiiiiiii'',
              Some ''viiiiiii'', Some ''viiiiii'', Some ''viiiii'', Some ''viiii'', Some ''viii'',
              Some ''vii'', Some ''vi'', Some ''v'']"
    by code_simp
  from negative_maxVersions_is_unlimited[OF n2] c0 have m: "maxVersions demo = 10" by blast
  from negative_maxVersions_is_unlimited[OF n1, of ten_versions_world two_writes] c1
  have k: "\<exists>w'. live_writes unlimited two_writes ten_versions_world = Some w' \<and> goroutines w' = []
          \<and> (\<forall>key. suffix (versions_of ten_versions_world key) (versions_of w' key))"
    by blast
  from n1 n2 m e k show ?thesis by blast
qed

end
